theory Spec2Isabelle
  imports Complex_Main
begin

section \<open>Python floats\<close>

text \<open>
  Python's \<open>float\<close> is IEEE 754 binary64. A finite float is modelled by the rational
  number it denotes, and every arithmetic operation rounds its exact result to the nearest
  number with a 53-bit significand, ties to even (\<open>fl\<close>). The exponent range of binary64
  (overflow to infinity, subnormal numbers) is not modelled: the animation only handles
  progress values in [0, 1.08] and screen coordinates.
\<close>

text \<open>
  \<open>ilog2 x\<close> is the binary exponent of a positive rational,
  \<open>2 ^ ilog2 x \<le> x < 2 ^ (ilog2 x + 1)\<close>, found by halving or doubling.
\<close>

function log2_ge1 :: "rat \<Rightarrow> int" where
  "log2_ge1 x = (if 2 \<le> x then log2_ge1 (x / 2) + 1 else 0)"
  by pat_completeness auto
termination
proof (relation "measure (\<lambda>x. nat \<lfloor>x\<rfloor>)")
  show "wf (measure (\<lambda>x::rat. nat \<lfloor>x\<rfloor>))" by simp
next
  fix x :: rat assume "2 \<le> x"
  then have "\<lfloor>x / 2\<rfloor> < \<lfloor>x\<rfloor>" by (simp add: floor_less_iff) linarith
  moreover have "0 < \<lfloor>x\<rfloor>" using \<open>2 \<le> x\<close> by (simp add: less_floor_iff[symmetric])
  ultimately show "(x / 2, x) \<in> measure (\<lambda>x. nat \<lfloor>x\<rfloor>)" by simp
qed

function log2_lt1 :: "rat \<Rightarrow> int" where
  "log2_lt1 x = (if 0 < x \<and> x < 1 then log2_lt1 (2 * x) - 1 else 0)"
  by pat_completeness auto
termination
proof (relation "measure (\<lambda>x. nat \<lceil>1 / x\<rceil>)")
  show "wf (measure (\<lambda>x::rat. nat \<lceil>1 / x\<rceil>))" by simp
next
  fix x :: rat assume a: "0 < x \<and> x < 1"
  define y where "y = 1 / x"
  have y: "1 < y" using a by (simp add: y_def)
  have c1: "y \<le> of_int \<lceil>y\<rceil>" by (rule le_of_int_ceiling)
  have c0: "(1::int) < \<lceil>y\<rceil>" using y by (simp add: less_ceiling_iff)
  then have c2: "(2::rat) \<le> of_int \<lceil>y\<rceil>" by linarith
  have "y / 2 \<le> of_int \<lceil>y\<rceil> - 1" using c1 c2 by linarith
  then have f1: "\<lceil>y / 2\<rceil> < \<lceil>y\<rceil>" by (simp add: ceiling_less_iff)
  have f2: "1 / (2 * x) = y / 2" by (simp add: y_def)
  have f3: "0 < \<lceil>y\<rceil>" using c0 by simp
  have "nat \<lceil>y / 2\<rceil> < nat \<lceil>y\<rceil>" using f1 f3 by linarith
  then have "nat \<lceil>1 / (2 * x)\<rceil> < nat \<lceil>1 / x\<rceil>"
    unfolding f2 unfolding y_def .
  then show "(2 * x, x) \<in> measure (\<lambda>x. nat \<lceil>1 / x\<rceil>)"
    by (simp only: in_measure)
qed

declare log2_ge1.simps [simp del] log2_lt1.simps [simp del]

definition ilog2 :: "rat \<Rightarrow> int" where
  "ilog2 x = (if 1 \<le> x then log2_ge1 x else log2_lt1 x)"

definition pow2 :: "int \<Rightarrow> rat" where
  "pow2 e = (if 0 \<le> e then 2 ^ nat e else 1 / 2 ^ nat (- e))"

definition round_half_even :: "rat \<Rightarrow> int" where
  "round_half_even q = (let n = \<lfloor>q\<rfloor>; r = q - of_int n
     in if r < 1 / 2 then n else if 1 / 2 < r then n + 1 else if even n then n else n + 1)"

definition fl :: "rat \<Rightarrow> rat" where
  "fl x = (if x = 0 then 0
           else let u = pow2 (ilog2 \<bar>x\<bar> - 52)
                in sgn x * of_int (round_half_even (\<bar>x\<bar> / u)) * u)"

definition fadd :: "rat \<Rightarrow> rat \<Rightarrow> rat" where
  "fadd a b = fl (a + b)"

definition fsub :: "rat \<Rightarrow> rat \<Rightarrow> rat" where
  "fsub a b = fl (a - b)"

definition fmul :: "rat \<Rightarrow> rat \<Rightarrow> rat" where
  "fmul a b = fl (a * b)"

definition fdiv :: "rat \<Rightarrow> rat \<Rightarrow> rat" where
  "fdiv a b = fl (a / b)"

text \<open>An \<open>int\<close> operand of a mixed operation is converted to the nearest float.\<close>

definition float_of_int :: "int \<Rightarrow> rat" where
  "float_of_int i = fl (of_int i)"

text \<open>Python's \<open>min(a, b)\<close> returns \<open>a\<close> unless \<open>b < a\<close>.\<close>

definition py_min :: "rat \<Rightarrow> rat \<Rightarrow> rat" where
  "py_min a b = (if b < a then b else a)"

text \<open>
  \<open>pow(x, 2)\<close> on floats calls the C library's \<open>pow\<close>, which is not one of the
  correctly rounded IEEE operations. It is a parameter \<open>pw\<close> of the animation step;
  \<open>pow_rounded\<close> is the correctly rounded square, used where a concrete \<open>pow\<close> is
  needed to evaluate a position.
\<close>

definition pow_rounded :: "rat \<Rightarrow> rat \<Rightarrow> rat" where
  "pow_rounded x y = (if y = 2 then fl (x * x) else 0)"

section \<open>AnimatedPiece\<close>

text \<open>
  \<^verbatim>\<open>
  class AnimatedPiece:
      def __init__(self, piece_type, color, start_pos, end_pos):
          ...
          self.current_pos = start_pos
          self.progress = 0.0
          self.ANIMATION_SPEED = 0.08
  \<close>
  The positions the game passes are pairs of ints (pixel coordinates).
\<close>

record animated_piece =
  ap_piece_type :: string
  ap_color :: string
  start_pos :: "int \<times> int"
  end_pos :: "int \<times> int"
  current_pos :: "rat \<times> rat"
  progress :: rat
  ANIMATION_SPEED :: rat

definition AnimatedPiece :: "string \<Rightarrow> string \<Rightarrow> int \<times> int \<Rightarrow> int \<times> int \<Rightarrow> animated_piece" where
  "AnimatedPiece pt c s e =
     \<lparr>ap_piece_type = pt, ap_color = c, start_pos = s, end_pos = e,
      current_pos = (of_int (fst s), of_int (snd s)),
      progress = 0, ANIMATION_SPEED = fl (8 / 100)\<rparr>"

text \<open>
  \<^verbatim>\<open>
  def update(self):
      self.progress = min(1.0, self.progress + self.ANIMATION_SPEED)
      t = self.progress
      ease = t * t * (3 - 2 * t) if t < 0.5 else 1 - pow(-2 * t + 2, 2) / 2
      self.current_pos = (
          self.start_pos[0] + (self.end_pos[0] - self.start_pos[0]) * ease,
          self.start_pos[1] + (self.end_pos[1] - self.start_pos[1]) * ease)
      return self.progress >= 1.0
  \<close>
  The result is the returned flag and the piece after the call.
\<close>

definition update :: "(rat \<Rightarrow> rat \<Rightarrow> rat) \<Rightarrow> animated_piece \<Rightarrow> bool \<times> animated_piece" where
  "update pw ap =
     (let p = py_min 1 (fadd (progress ap) (ANIMATION_SPEED ap));
          t = p;
          ease = (if t < 1 / 2 then fmul (fmul t t) (fsub 3 (fmul 2 t))
                  else fsub 1 (fdiv (pw (fadd (fmul (- 2) t) 2) 2) 2));
          cur = (fadd (float_of_int (fst (start_pos ap)))
                   (fmul (float_of_int (fst (end_pos ap) - fst (start_pos ap))) ease),
                 fadd (float_of_int (snd (start_pos ap)))
                   (fmul (float_of_int (snd (end_pos ap) - snd (start_pos ap))) ease))
      in (1 \<le> p, ap\<lparr>progress := p, current_pos := cur\<rparr>))"

text \<open>\<open>updates pw n ap\<close> is the piece after \<open>n\<close> successive calls of \<open>update\<close>.\<close>

fun updates :: "(rat \<Rightarrow> rat \<Rightarrow> rat) \<Rightarrow> nat \<Rightarrow> animated_piece \<Rightarrow> animated_piece" where
  "updates pw 0 ap = ap"
| "updates pw (Suc n) ap = snd (update pw (updates pw n ap))"

text \<open>
  \<open>aged pw (k, pt, c, s, e)\<close> is a piece built by the constructor from \<open>pt\<close>, \<open>c\<close>,
  \<open>s\<close>, \<open>e\<close> and advanced by \<open>k\<close> calls of \<open>update\<close>: the pieces the program holds.
\<close>

definition aged :: "(rat \<Rightarrow> rat \<Rightarrow> rat) \<Rightarrow> nat \<times> string \<times> string \<times> (int \<times> int) \<times> (int \<times> int) \<Rightarrow> animated_piece" where
  "aged pw = (\<lambda>(k, pt, c, s, e). updates pw k (AnimatedPiece pt c s e))"




text \<open>One step of the progress value, as \<open>update\<close> computes it with the constructor's speed.\<close>

definition advance :: "rat \<Rightarrow> rat" where
  "advance p = py_min 1 (fadd p (fl (8 / 100)))"

section \<open>The rules library and the engine, as the game uses them\<close>

text \<open>
  The game consults an external rules library (positions, legal moves, terminal-state
  queries) and an external engine process. Neither is part of the program: both are
  parameters of the model, collected in a record \<open>library\<close> over an arbitrary type \<open>'b\<close> of
  positions and \<open>'e\<close> of engine handles. Squares are numbered 0 to 63 from a1, colours are
  booleans with white true, as in the library.
\<close>

datatype piece_type = PAWN | KNIGHT | BISHOP | ROOK | QUEEN | KING

definition WHITE :: bool where
  "WHITE = True"

definition BLACK :: bool where
  "BLACK = False"

record piece =
  piece_type :: piece_type
  color :: bool

text \<open>\<open>piece.symbol().lower()\<close>: the lower-case letter of the piece type.\<close>

definition symbol_lower :: "piece \<Rightarrow> string" where
  "symbol_lower p =
     (case piece_type p of PAWN \<Rightarrow> ''p'' | KNIGHT \<Rightarrow> ''n'' | BISHOP \<Rightarrow> ''b''
      | ROOK \<Rightarrow> ''r'' | QUEEN \<Rightarrow> ''q'' | KING \<Rightarrow> ''k'')"

record move =
  from_square :: nat
  to_square :: nat
  promotion :: "piece_type option"

text \<open>\<open>chess.Move(a, b)\<close> carries no promotion piece.\<close>

definition Move :: "nat \<Rightarrow> nat \<Rightarrow> move" where
  "Move a b = \<lparr>from_square = a, to_square = b, promotion = None\<rparr>"

text \<open>A move object is false in a condition exactly when it is the null move.\<close>

definition move_bool :: "move \<Rightarrow> bool" where
  "move_bool m = (from_square m \<noteq> 0 \<or> to_square m \<noteq> 0 \<or> promotion m \<noteq> None)"

definition square_file :: "nat \<Rightarrow> nat" where
  "square_file sq = sq mod 8"

definition square_rank :: "nat \<Rightarrow> nat" where
  "square_rank sq = sq div 8"

definition square :: "int \<Rightarrow> int \<Rightarrow> nat" where
  "square file rank = nat (rank * 8 + file)"

text \<open>
  Exceptions, each with the text \<open>str(e)\<close> prints. Only subclasses of \<open>Exception\<close>
  occur; \<open>EngineTerminatedError\<close> is the engine's process-died error.
\<close>

datatype exn =
    EngineTerminatedError string
  | EngineError string
  | AttributeError string
  | ZeroDivisionError string
  | OtherException string

fun str_exn :: "exn \<Rightarrow> string" where
  "str_exn (EngineTerminatedError s) = s"
| "str_exn (EngineError s) = s"
| "str_exn (AttributeError s) = s"
| "str_exn (ZeroDivisionError s) = s"
| "str_exn (OtherException s) = s"

text \<open>The test of the clause \<open>except chess.engine.EngineTerminatedError\<close>.\<close>

fun is_engine_terminated :: "exn \<Rightarrow> bool" where
  "is_engine_terminated (EngineTerminatedError s) = True"
| "is_engine_terminated x = False"

record ('b, 'e) library =
  Board :: 'b
  legal_moves :: "'b \<Rightarrow> move list"
  piece_at :: "'b \<Rightarrow> nat \<Rightarrow> piece option"
  push :: "'b \<Rightarrow> move \<Rightarrow> 'b"
  is_checkmate :: "'b \<Rightarrow> bool"
  is_stalemate :: "'b \<Rightarrow> bool"
  is_insufficient_material :: "'b \<Rightarrow> bool"
  turn :: "'b \<Rightarrow> bool"
  reset :: "'b \<Rightarrow> 'b"
  popen_uci :: "string \<Rightarrow> exn + 'e"
  play :: "'e \<Rightarrow> 'b \<Rightarrow> exn + move option"

section \<open>ChessGame\<close>

text \<open>
  The value of an attribute that holds \<open>None\<close>, a string or a boolean (\<open>winner\<close> is
  assigned all three).
\<close>

datatype py_value = PyNone | PyStr string | PyBool bool

text \<open>
  The fields of the game object that the game logic reads and writes. \<open>two_player_mode\<close>
  is not assigned by the constructor: \<open>None\<close> is the missing attribute. \<open>printed\<close> collects
  the lines written by \<open>print\<close>. Fonts, images, buttons and the screen are not modelled.
\<close>

record ('b, 'e) chess_game =
  SQUARE_SIZE :: int
  BOARD_OFFSET :: int
  board :: 'b
  selected_square :: "nat option"
  valid_moves :: "move list"
  animated_pieces :: "animated_piece list"
  game_over :: bool
  winner :: py_value
  player_color :: bool
  state :: string
  computer_move_scheduled :: bool
  computer_thinking_start :: int
  engine :: "'e option"
  two_player_mode :: "bool option"
  printed :: "string list"

text \<open>A call either returns or raises; in both cases the object is left in some state.\<close>

datatype 's outcome = Returned 's | Raised exn 's

fun state_of :: "'s outcome \<Rightarrow> 's" where
  "state_of (Returned s) = s"
| "state_of (Raised x s) = s"

fun returned :: "'s outcome \<Rightarrow> bool" where
  "returned (Returned s) = True"
| "returned (Raised x s) = False"

definition stockfish_paths :: "string list" where
  "stockfish_paths = [''/opt/homebrew/bin/stockfish'', ''/usr/local/bin/stockfish'', ''stockfish'']"

text \<open>\<open>int(x)\<close> truncates a float towards zero.\<close>

definition py_int :: "rat \<Rightarrow> int" where
  "py_int x = (if 0 \<le> x then \<lfloor>x\<rfloor> else \<lceil>x\<rceil>)"

text \<open>
  The constructor's loop over the candidate paths: the first launch that succeeds gives
  the engine, a failing launch is skipped silently.
\<close>

fun first_engine :: "('b, 'e) library \<Rightarrow> string list \<Rightarrow> 'e option" where
  "first_engine L [] = None"
| "first_engine L (path # ps) =
     (case popen_uci L path of Inr e \<Rightarrow> Some e | Inl x \<Rightarrow> first_engine L ps)"

text \<open>
  \<open>ChessGame L width height\<close> is the object after \<open>__init__\<close> on a display of the given
  size (\<open>terminal_mode\<close> is false there, so the scaled dimensions are used).
\<close>

definition ChessGame :: "('b, 'e) library \<Rightarrow> int \<Rightarrow> int \<Rightarrow> ('b, 'e) chess_game" where
  "ChessGame L width height =
     (let scale_x = fdiv (float_of_int width) 1200;
          scale_y = fdiv (float_of_int height) 800;
          scale = py_min scale_x scale_y;
          BOARD_SIZE = py_int (fmul 700 scale)
      in \<lparr>SQUARE_SIZE = BOARD_SIZE div 8,
          BOARD_OFFSET = py_int (fmul 50 scale),
          board = Board L,
          selected_square = None,
          valid_moves = [],
          animated_pieces = [],
          game_over = False,
          winner = PyNone,
          player_color = WHITE,
          state = ''MENU'',
          computer_move_scheduled = False,
          computer_thinking_start = 0,
          engine = first_engine L stockfish_paths,
          two_player_mode = None,
          printed = []\<rparr>)"

definition print :: "string \<Rightarrow> ('b, 'e) chess_game \<Rightarrow> ('b, 'e) chess_game" where
  "print line g = g\<lparr>printed := printed g @ [line]\<rparr>"

definition select_square :: "('b, 'e) library \<Rightarrow> nat \<Rightarrow> ('b, 'e) chess_game \<Rightarrow> ('b, 'e) chess_game" where
  "select_square L sq g =
     g\<lparr>selected_square := Some sq,
       valid_moves := filter (\<lambda>m. from_square m = sq) (legal_moves L (board g))\<rparr>"

text \<open>The two lines of text that \<open>draw_game_over\<close> chooses from \<open>winner\<close>.\<close>

definition game_over_message :: "py_value \<Rightarrow> string \<times> string" where
  "game_over_message w =
     (if w = PyStr ''computer'' then (''Computer Wins!'', ''Better luck next time!'')
      else if w = PyStr ''player'' then (''Player Wins!'', ''Congratulations!'')
      else (''Game Over'', ''''))"

definition resign :: "('b, 'e) library \<Rightarrow> ('b, 'e) chess_game \<Rightarrow> ('b, 'e) chess_game" where
  "resign L g =
     g\<lparr>game_over := True,
       winner := PyBool (if turn L (board g) = WHITE then BLACK else WHITE)\<rparr>"

definition show_menu :: "('b, 'e) library \<Rightarrow> ('b, 'e) chess_game \<Rightarrow> ('b, 'e) chess_game" where
  "show_menu L g =
     g\<lparr>state := ''MENU'', board := reset L (board g), selected_square := None,
       valid_moves := [], animated_pieces := [], game_over := False, winner := PyNone\<rparr>"

text \<open>
  \<open>init_engine\<close>: every failing launch is caught and reported, the first success returns;
  after the last failure a final line is printed and the engine stays absent.
\<close>

fun init_engine_from :: "('b, 'e) library \<Rightarrow> string list \<Rightarrow> ('b, 'e) chess_game \<Rightarrow> ('b, 'e) chess_game" where
  "init_engine_from L [] g =
     print ''Could not initialize chess engine. Please make sure Stockfish is installed.'' g"
| "init_engine_from L (path # ps) g =
     (case popen_uci L path of
        Inr e \<Rightarrow> print (''Successfully initialized chess engine at: '' @ path) (g\<lparr>engine := Some e\<rparr>)
      | Inl x \<Rightarrow>
          init_engine_from L ps
            (print (''Failed to initialize engine at '' @ path @ '': '' @ str_exn x) g))"

definition init_engine :: "('b, 'e) library \<Rightarrow> ('b, 'e) chess_game \<Rightarrow> ('b, 'e) chess_game" where
  "init_engine L g = init_engine_from L stockfish_paths g"

text \<open>
  \<open>start_vs_computer\<close>. \<open>init_engine\<close> catches every exception itself, so the
  \<open>except\<close> branch around its first call is never taken.
\<close>

definition start_vs_computer :: "('b, 'e) library \<Rightarrow> ('b, 'e) chess_game \<Rightarrow> ('b, 'e) chess_game" where
  "start_vs_computer L g =
     (let g1 = (if engine g = None then init_engine L g else g)
      in if engine g1 = None
         then print ''Chess engine not available. Please install Stockfish to play against computer.'' g1
         else
           (let g2 = g1\<lparr>state := ''PLAYING'', board := reset L (board g1),
                        selected_square := None, valid_moves := [], animated_pieces := [],
                        game_over := False, winner := PyNone, player_color := WHITE,
                        two_player_mode := Some False, computer_move_scheduled := False,
                        computer_thinking_start := 0\<rparr>
            in if engine g2 = None then init_engine L g2 else g2))"

definition start_vs_human :: "('b, 'e) library \<Rightarrow> ('b, 'e) chess_game \<Rightarrow> ('b, 'e) chess_game" where
  "start_vs_human L g =
     g\<lparr>state := ''PLAYING'', board := reset L (board g), selected_square := None,
       valid_moves := [], animated_pieces := [], game_over := False, winner := PyNone,
       player_color := WHITE, two_player_mode := Some True\<rparr>"

definition start_game :: "('b, 'e) library \<Rightarrow> bool \<Rightarrow> ('b, 'e) chess_game \<Rightarrow> ('b, 'e) chess_game" where
  "start_game L two_player g =
     g\<lparr>state := ''PLAYING'', board := reset L (board g), two_player_mode := Some two_player,
       player_color := True, selected_square := None, valid_moves := [],
       animated_pieces := [], game_over := False, winner := PyNone,
       computer_move_scheduled := False\<rparr>"

definition check_game_over :: "('b, 'e) library \<Rightarrow> ('b, 'e) chess_game \<Rightarrow> ('b, 'e) chess_game" where
  "check_game_over L g =
     (if is_checkmate L (board g) \<or> is_stalemate L (board g)
         \<or> is_insufficient_material L (board g)
      then
        (if is_checkmate L (board g)
         then (if turn L (board g) = WHITE
               then g\<lparr>game_over := True,
                      winner := (if player_color g = WHITE then PyStr ''computer''
                                 else PyStr ''player'')\<rparr>
               else g\<lparr>game_over := True,
                      winner := (if player_color g = WHITE then PyStr ''player''
                                 else PyStr ''computer'')\<rparr>)
         else g\<lparr>game_over := True, winner := PyNone\<rparr>)
      else g)"

text \<open>
  The promotion check at the head of \<open>make_move\<close>: the move object's promotion is
  overwritten with the queen when the piece on its origin square is a pawn and the move
  ends on that pawn's far rank.
  \<^verbatim>\<open>
  piece = self.board.piece_at(move.from_square)
  if (piece and piece.piece_type == chess.PAWN and
      ((piece.color and chess.square_rank(move.to_square) == 7) or
       (not piece.color and chess.square_rank(move.to_square) == 0))):
      move.promotion = chess.QUEEN
  \<close>
\<close>

definition normalise_promotion :: "piece option \<Rightarrow> move \<Rightarrow> move" where
  "normalise_promotion piece mv =
     (if (case piece of None \<Rightarrow> False
          | Some p \<Rightarrow> piece_type p = PAWN \<and>
              ((color p \<and> square_rank (to_square mv) = 7) \<or>
               (\<not> color p \<and> square_rank (to_square mv) = 0)))
      then mv\<lparr>promotion := Some QUEEN\<rparr> else mv)"

text \<open>
  \<open>make_move\<close>. Nothing happens unless the move is in the library's legal-move set.
  \<open>piece.symbol()\<close> raises when the library reports no piece on the origin square;
  nothing has been changed at that point. The function has no return value.
\<close>

definition make_move :: "('b, 'e) library \<Rightarrow> move \<Rightarrow> ('b, 'e) chess_game \<Rightarrow> ('b, 'e) chess_game outcome" where
  "make_move L mv g =
     (if mv \<in> set (legal_moves L (board g))
      then
        (let piece = piece_at L (board g) (from_square mv);
             mv' = normalise_promotion piece mv;
             from_sq = from_square mv';
             to_sq = to_square mv';
             start_pos = (int (square_file from_sq) * SQUARE_SIZE g + SQUARE_SIZE g div 2,
                          (7 - int (square_rank from_sq)) * SQUARE_SIZE g + SQUARE_SIZE g div 2);
             end_pos = (int (square_file to_sq) * SQUARE_SIZE g + SQUARE_SIZE g div 2,
                        (7 - int (square_rank to_sq)) * SQUARE_SIZE g + SQUARE_SIZE g div 2)
         in case piece of
              None \<Rightarrow> Raised (AttributeError ''NoneType object has no attribute symbol'') g
            | Some p \<Rightarrow>
                Returned (check_game_over L
                  (g\<lparr>animated_pieces := animated_pieces g @
                        [AnimatedPiece (symbol_lower p) (if color p then ''w'' else ''b'')
                           start_pos end_pos],
                     board := push L (board g) mv'\<rparr>)))
      else Returned g)"

text \<open>The two \<open>except\<close> clauses of \<open>make_computer_move\<close>, tried in the source's order.\<close>

definition computer_move_failed :: "exn \<Rightarrow> ('b, 'e) chess_game \<Rightarrow> ('b, 'e) chess_game" where
  "computer_move_failed x g =
     (case x of
        EngineTerminatedError s \<Rightarrow>
          (print ''Chess engine has terminated unexpectedly'' g)
            \<lparr>engine := None, game_over := True, winner := PyStr ''player''\<rparr>
      | _ \<Rightarrow>
          (print (''Error making computer move: '' @ str_exn x) g)
            \<lparr>game_over := True, winner := PyStr ''player''\<rparr>)"

definition make_computer_move :: "('b, 'e) library \<Rightarrow> ('b, 'e) chess_game \<Rightarrow> ('b, 'e) chess_game" where
  "make_computer_move L g =
     (case engine g of
        None \<Rightarrow>
          (print ''Chess engine not available'' g)\<lparr>game_over := True, winner := PyStr ''player''\<rparr>
      | Some e \<Rightarrow>
          (case play L e (board g) of
             Inl x \<Rightarrow> computer_move_failed x g
           | Inr None \<Rightarrow> g
           | Inr (Some mv) \<Rightarrow>
               (if move_bool mv
                then (case make_move L mv g of
                        Raised x g' \<Rightarrow> computer_move_failed x g'
                      | Returned g' \<Rightarrow>
                          g'\<lparr>computer_move_scheduled := False, computer_thinking_start := 0\<rparr>)
                else g)))"

text \<open>The events of the host's event queue; only a left button press reaches the board.\<close>

datatype event =
    MOUSEBUTTONDOWN int "int \<times> int"
  | MOUSEMOTION "int \<times> int"
  | KEYDOWN int
  | QUIT

text \<open>
  \<open>click_square\<close> is the part of \<open>handle_event\<close> that follows once the pressed square is
  known: with no selection it selects a piece of the side to move; with a selection it
  builds the move without a promotion piece, applies it when it is among the selection's
  moves, and clears the selection in either case.
\<close>

definition click_square :: "('b, 'e) library \<Rightarrow> nat \<Rightarrow> ('b, 'e) chess_game \<Rightarrow> ('b, 'e) chess_game outcome" where
  "click_square L sq g =
     (case selected_square g of
        None \<Rightarrow>
          (case piece_at L (board g) sq of
             None \<Rightarrow> Returned g
           | Some p \<Rightarrow>
               (if color p = turn L (board g)
                then Returned (g\<lparr>selected_square := Some sq,
                       valid_moves := filter (\<lambda>m. from_square m = sq)
                                        (legal_moves L (board g))\<rparr>)
                else Returned g))
      | Some sel \<Rightarrow>
          (let mv = Move sel sq
           in if mv \<in> set (valid_moves g)
              then
                (case piece_at L (board g) sel of
                   None \<Rightarrow> Raised (AttributeError ''NoneType object has no attribute piece_type'') g
                 | Some p \<Rightarrow>
                     (let mv' = (if piece_type p = PAWN \<and>
                                    ((turn L (board g) \<and> square_rank (to_square mv) = 7) \<or>
                                     (\<not> turn L (board g) \<and> square_rank (to_square mv) = 0))
                                 then mv\<lparr>promotion := Some QUEEN\<rparr> else mv)
                      in case make_move L mv' g of
                           Raised x g' \<Rightarrow> Raised x g'
                         | Returned g' \<Rightarrow>
                             Returned (g'\<lparr>selected_square := None, valid_moves := []\<rparr>)))
              else Returned (g\<lparr>selected_square := None, valid_moves := []\<rparr>)))"

text \<open>
  \<open>handle_event\<close>: a left press is ignored when the game is over or, against the
  computer, when it is not the player's turn; otherwise the pointer position is turned
  into a file and a rank by floor division, and a press on the board is a click on that
  square.
\<close>

definition handle_event :: "('b, 'e) library \<Rightarrow> event \<Rightarrow> ('b, 'e) chess_game \<Rightarrow> ('b, 'e) chess_game outcome" where
  "handle_event L ev g =
     (case ev of
        MOUSEBUTTONDOWN button pos \<Rightarrow>
          (if button = 1 \<and> \<not> game_over g
           then
             (case two_player_mode g of
                None \<Rightarrow> Raised (AttributeError ''ChessGame object has no attribute two_player_mode'') g
              | Some two_player \<Rightarrow>
                  (if two_player \<or> turn L (board g) = player_color g
                   then
                     (if SQUARE_SIZE g = 0
                      then Raised (ZeroDivisionError ''integer division or modulo by zero'') g
                      else
                        (let file = (fst pos - BOARD_OFFSET g) div SQUARE_SIZE g;
                             rank = 7 - ((snd pos - BOARD_OFFSET g) div SQUARE_SIZE g)
                         in if 0 \<le> file \<and> file < 8 \<and> 0 \<le> rank \<and> rank < 8
                            then click_square L (square file rank) g
                            else Returned g))
                   else Returned g))
           else Returned g)
      | _ \<Rightarrow> Returned g)"

text \<open>
  \<open>restart_game\<close> reads \<open>two_player_mode\<close> after it has reset the board: when the
  attribute is missing the call raises with the resets done.
\<close>

definition restart_game :: "('b, 'e) library \<Rightarrow> ('b, 'e) chess_game \<Rightarrow> ('b, 'e) chess_game outcome" where
  "restart_game L g =
     (let g1 = g\<lparr>board := reset L (board g), selected_square := None, valid_moves := [],
                  animated_pieces := [], game_over := False, winner := PyNone\<rparr>
      in case two_player_mode g1 of
           None \<Rightarrow> Raised (AttributeError ''ChessGame object has no attribute two_player_mode'') g1
         | Some two_player \<Rightarrow>
             (if \<not> two_player
              then Returned (g1\<lparr>player_color := WHITE, computer_move_scheduled := False,
                               computer_thinking_start := 0\<rparr>)
              else Returned g1))"

text \<open>
  The body of the loop in \<open>run\<close>, without the drawing. First every active animation is
  advanced and the finished ones are removed:
  \<^verbatim>\<open>
  for piece in self.animated_pieces[:]:
      if piece.update():
          self.animated_pieces.remove(piece)
  \<close>
\<close>

definition update_animations :: "(rat \<Rightarrow> rat \<Rightarrow> rat) \<Rightarrow> ('b, 'e) chess_game \<Rightarrow> ('b, 'e) chess_game" where
  "update_animations pw g =
     g\<lparr>animated_pieces :=
         map snd (filter (\<lambda>r. \<not> fst r) (map (update pw) (animated_pieces g)))\<rparr>"

text \<open>
  Then, in state PLAYING, the computer's turn (\<open>current_time\<close> is the host's clock in
  milliseconds, read at the start of the iteration).
\<close>

definition computer_turn :: "('b, 'e) library \<Rightarrow> int \<Rightarrow> ('b, 'e) chess_game \<Rightarrow> ('b, 'e) chess_game outcome" where
  "computer_turn L current_time g =
     (if game_over g then Returned g
      else case two_player_mode g of
        None \<Rightarrow> Raised (AttributeError ''ChessGame object has no attribute two_player_mode'') g
      | Some two_player \<Rightarrow>
          (if \<not> two_player \<and> turn L (board g) \<noteq> player_color g \<and> animated_pieces g = []
           then
             (if \<not> computer_move_scheduled g
              then Returned (make_computer_move L
                     (g\<lparr>computer_move_scheduled := True,
                        computer_thinking_start := current_time\<rparr>))
              else if current_time - computer_thinking_start g > 1000
              then Returned ((print ''Computer move timed out'' g)
                     \<lparr>computer_move_scheduled := False, computer_thinking_start := 0,
                      game_over := True, winner := PyStr ''player''\<rparr>)
              else Returned g)
           else Returned g))"

definition run_frame :: "('b, 'e) library \<Rightarrow> (rat \<Rightarrow> rat \<Rightarrow> rat) \<Rightarrow> int \<Rightarrow> ('b, 'e) chess_game \<Rightarrow> ('b, 'e) chess_game outcome" where
  "run_frame L pw current_time g =
     (let g1 = update_animations pw g
      in if state g1 = ''PLAYING'' then computer_turn L current_time g1 else Returned g1)"

text \<open>
  The operations on a game object: the button callbacks, the board input, the methods
  the tests call directly, and one iteration of the loop.
\<close>

datatype operation =
    StartVsComputer
  | StartVsHuman
  | StartGame bool
  | RestartGame
  | ShowMenu
  | Resign
  | SelectSquare nat
  | MakeMove move
  | MakeComputerMove
  | HandleEvent event
  | RunFrame int

fun apply_operation :: "('b, 'e) library \<Rightarrow> (rat \<Rightarrow> rat \<Rightarrow> rat) \<Rightarrow> operation \<Rightarrow> ('b, 'e) chess_game \<Rightarrow> ('b, 'e) chess_game outcome" where
  "apply_operation L pw StartVsComputer g = Returned (start_vs_computer L g)"
| "apply_operation L pw StartVsHuman g = Returned (start_vs_human L g)"
| "apply_operation L pw (StartGame two_player) g = Returned (start_game L two_player g)"
| "apply_operation L pw RestartGame g = restart_game L g"
| "apply_operation L pw ShowMenu g = Returned (show_menu L g)"
| "apply_operation L pw Resign g = Returned (resign L g)"
| "apply_operation L pw (SelectSquare sq) g = Returned (select_square L sq g)"
| "apply_operation L pw (MakeMove mv) g = make_move L mv g"
| "apply_operation L pw MakeComputerMove g = Returned (make_computer_move L g)"
| "apply_operation L pw (HandleEvent ev) g = handle_event L ev g"
| "apply_operation L pw (RunFrame current_time) g = run_frame L pw current_time g"

text \<open>
  A caller that goes on after an exception (a test, or a handler around the loop) goes on
  with the object as the raising call left it.
\<close>

fun apply_operations :: "('b, 'e) library \<Rightarrow> (rat \<Rightarrow> rat \<Rightarrow> rat) \<Rightarrow> operation list \<Rightarrow> ('b, 'e) chess_game \<Rightarrow> ('b, 'e) chess_game" where
  "apply_operations L pw [] g = g"
| "apply_operations L pw (op # ops) g =
     apply_operations L pw ops (state_of (apply_operation L pw op g))"

section \<open>A recorded position tree as the rules library\<close>

text \<open>
  To evaluate the game on concrete positions, a position is given together with the
  answers the rules library has for it: the pieces on the board, the side to move, the
  terminal-state flags, and each legal move with the position it leads to. The engine
  handle of this instance is the reply the engine will give; no engine can be launched.
\<close>

datatype position =
  Position
    (pieces: "(nat \<times> piece) list")
    (to_move: bool)
    (moves: "(move \<times> position) list")
    (checkmate: bool)
    (stalemate: bool)
    (insufficient: bool)

definition recorded :: "position \<Rightarrow> (position, exn + move option) library" where
  "recorded start =
     \<lparr>Board = start,
      legal_moves = (\<lambda>b. map fst (moves b)),
      piece_at = (\<lambda>b sq. map_of (pieces b) sq),
      push = (\<lambda>b mv. case map_of (moves b) mv of None \<Rightarrow> b | Some b' \<Rightarrow> b'),
      is_checkmate = checkmate,
      is_stalemate = stalemate,
      is_insufficient_material = insufficient,
      turn = to_move,
      reset = (\<lambda>b. start),
      popen_uci = (\<lambda>path. Inl (OtherException ''No such file or directory'')),
      play = (\<lambda>e b. e)\<rparr>"

text \<open>
  The position of the repository's promotion test: a lone white pawn on b7 (square 49),
  White to move. The library generates the advance to b8 (square 57) as four moves, one
  per promotion piece; the advance without a promotion piece is not among them. After
  the promotion Black has no piece, so he has no legal move and is not in check.
\<close>

definition after_promotion :: "piece_type \<Rightarrow> position" where
  "after_promotion pt =
     Position [(57, \<lparr>piece_type = pt, color = True\<rparr>)] False [] False True
       (pt = BISHOP \<or> pt = KNIGHT)"

definition pawn_b7 :: position where
  "pawn_b7 =
     Position [(49, \<lparr>piece_type = PAWN, color = True\<rparr>)] True
       [(\<lparr>from_square = 49, to_square = 57, promotion = Some QUEEN\<rparr>, after_promotion QUEEN),
        (\<lparr>from_square = 49, to_square = 57, promotion = Some ROOK\<rparr>, after_promotion ROOK),
        (\<lparr>from_square = 49, to_square = 57, promotion = Some BISHOP\<rparr>, after_promotion BISHOP),
        (\<lparr>from_square = 49, to_square = 57, promotion = Some KNIGHT\<rparr>, after_promotion KNIGHT)]
       False False False"

text \<open>
  A mate in one: White king g6 (46) and queen a1 (0), Black king g8 (62), White to move.
  Of White's moves only the mating move Qa1-a8 (to square 56) is recorded.
\<close>

definition mated :: position where
  "mated =
     Position [(46, \<lparr>piece_type = KING, color = True\<rparr>), (56, \<lparr>piece_type = QUEEN, color = True\<rparr>),
               (62, \<lparr>piece_type = KING, color = False\<rparr>)]
       False [] True False False"

definition mate_in_one :: position where
  "mate_in_one =
     Position [(46, \<lparr>piece_type = KING, color = True\<rparr>), (0, \<lparr>piece_type = QUEEN, color = True\<rparr>),
               (62, \<lparr>piece_type = KING, color = False\<rparr>)]
       True [(\<lparr>from_square = 0, to_square = 56, promotion = None\<rparr>, mated)] False False False"

text \<open>
  The same material with Black to move and the queen on a7 (48): Black's moves are
  Kg8-f8 (to square 61) and Kg8-h8 (to square 63). The record ends there: the positions
  after them carry no moves.
\<close>

definition black_to_move :: position where
  "black_to_move =
     Position [(46, \<lparr>piece_type = KING, color = True\<rparr>), (48, \<lparr>piece_type = QUEEN, color = True\<rparr>),
               (62, \<lparr>piece_type = KING, color = False\<rparr>)]
       False
       [(\<lparr>from_square = 62, to_square = 61, promotion = None\<rparr>,
         Position [(46, \<lparr>piece_type = KING, color = True\<rparr>), (48, \<lparr>piece_type = QUEEN, color = True\<rparr>),
                   (61, \<lparr>piece_type = KING, color = False\<rparr>)]
           True [] False False False),
        (\<lparr>from_square = 62, to_square = 63, promotion = None\<rparr>,
         Position [(46, \<lparr>piece_type = KING, color = True\<rparr>), (48, \<lparr>piece_type = QUEEN, color = True\<rparr>),
                   (63, \<lparr>piece_type = KING, color = False\<rparr>)]
           True [] False False False)]
       False False False"

text \<open>
  A mate by under-promotion: White king h3 (23) with pawns h2 (15) and h4 (31), Black
  king f3 (21) with a pawn on g2 (14), Black to move. The knight promotion on g1
  (square 6) checks the king on h3, whose flight squares g2, g3 and g4 are covered by the
  black king and h2, h4 are held by his own pawns: checkmate. A queen, rook or bishop on
  g1 gives no check and leaves White the move h4-h5 (to square 39). Of Black's moves the
  four promotions are recorded, and the record ends after h4-h5.
\<close>

definition after_g1 :: "piece_type \<Rightarrow> position" where
  "after_g1 pt =
     Position [(23, \<lparr>piece_type = KING, color = True\<rparr>), (15, \<lparr>piece_type = PAWN, color = True\<rparr>),
               (31, \<lparr>piece_type = PAWN, color = True\<rparr>), (21, \<lparr>piece_type = KING, color = False\<rparr>),
               (6, \<lparr>piece_type = pt, color = False\<rparr>)]
       True
       (if pt = KNIGHT then []
        else [(\<lparr>from_square = 31, to_square = 39, promotion = None\<rparr>,
               Position [(23, \<lparr>piece_type = KING, color = True\<rparr>),
                         (15, \<lparr>piece_type = PAWN, color = True\<rparr>),
                         (39, \<lparr>piece_type = PAWN, color = True\<rparr>),
                         (21, \<lparr>piece_type = KING, color = False\<rparr>),
                         (6, \<lparr>piece_type = pt, color = False\<rparr>)]
                 False [] False False False)])
       (pt = KNIGHT) False False"

definition knight_mate_in_one :: position where
  "knight_mate_in_one =
     Position [(23, \<lparr>piece_type = KING, color = True\<rparr>), (15, \<lparr>piece_type = PAWN, color = True\<rparr>),
               (31, \<lparr>piece_type = PAWN, color = True\<rparr>), (21, \<lparr>piece_type = KING, color = False\<rparr>),
               (14, \<lparr>piece_type = PAWN, color = False\<rparr>)]
       False
       [(\<lparr>from_square = 14, to_square = 6, promotion = Some QUEEN\<rparr>, after_g1 QUEEN),
        (\<lparr>from_square = 14, to_square = 6, promotion = Some ROOK\<rparr>, after_g1 ROOK),
        (\<lparr>from_square = 14, to_square = 6, promotion = Some BISHOP\<rparr>, after_g1 BISHOP),
        (\<lparr>from_square = 14, to_square = 6, promotion = Some KNIGHT\<rparr>, after_g1 KNIGHT)]
       False False False"

text \<open>
  The game object of the repository's tests: constructed, then put into state PLAYING;
  here on a board of 87-pixel squares with the position given.
\<close>

definition test_game :: "position \<Rightarrow> (position, exn + move option) chess_game" where
  "test_game p =
     \<lparr>SQUARE_SIZE = 87, BOARD_OFFSET = 50, board = p, selected_square = None,
      valid_moves = [], animated_pieces = [], game_over = False, winner = PyNone,
      player_color = WHITE, state = ''PLAYING'', computer_move_scheduled = False,
      computer_thinking_start = 0, engine = None, two_player_mode = None, printed = []\<rparr>"

text \<open>
  The test game in the mode against the computer, with an engine handle in place, as
  \<open>start_vs_computer\<close> leaves these two fields.
\<close>

definition vs_computer_game :: "position \<Rightarrow> exn + move option \<Rightarrow> (position, exn + move option) chess_game" where
  "vs_computer_game p e = (test_game p)\<lparr>engine := Some e, two_player_mode := Some False\<rparr>"

section \<open>Facts about the animation\<close>

lemma floor_rat_numeral: "\<lfloor>numeral a / numeral b :: rat\<rfloor> = numeral a div numeral b"
  by (metis floor_divide_of_int_eq of_int_numeral)

lemmas fl_eval =
  floor_rat_numeral fl_def ilog2_def log2_ge1.simps log2_lt1.simps pow2_def
  round_half_even_def Let_def fadd_def fsub_def fmul_def fdiv_def py_min_def float_of_int_def

lemma update_progress:
  "progress (snd (update pw ap)) = py_min 1 (fadd (progress ap) (ANIMATION_SPEED ap))"
  by (simp add: update_def Let_def)

lemma update_flag:
  "fst (update pw ap) = (1 \<le> py_min 1 (fadd (progress ap) (ANIMATION_SPEED ap)))"
  by (simp add: update_def Let_def)

lemma update_speed: "ANIMATION_SPEED (snd (update pw ap)) = ANIMATION_SPEED ap"
  by (simp add: update_def Let_def)

lemma updates_speed: "ANIMATION_SPEED (updates pw n ap) = ANIMATION_SPEED ap"
  by (induction n) (simp_all add: update_speed)

lemma updates_progress:
  "progress (updates pw n (AnimatedPiece pt c s e)) = (advance ^^ n) 0"
proof (induction n)
  case 0
  show ?case by (simp add: AnimatedPiece_def)
next
  case (Suc n)
  have "ANIMATION_SPEED (updates pw n (AnimatedPiece pt c s e)) = fl (8 / 100)"
    by (simp add: updates_speed AnimatedPiece_def)
  with Suc show ?case
    by (simp add: update_progress advance_def)
qed

lemma adv_1: "advance 0 = 5764607523034235 / 72057594037927936"
  by (simp add: advance_def fl_eval)

lemma adv_2: "advance (5764607523034235 / 72057594037927936) = 5764607523034235 / 36028797018963968"
  by (simp add: advance_def fl_eval)

lemma adv_3: "advance (5764607523034235 / 36028797018963968) = 1080863910568919 / 4503599627370496"
  by (simp add: advance_def fl_eval)

lemma adv_4: "advance (1080863910568919 / 4503599627370496) = 5764607523034235 / 18014398509481984"
  by (simp add: advance_def fl_eval)

lemma adv_5: "advance (5764607523034235 / 18014398509481984) = 3602879701896397 / 9007199254740992"
  by (simp add: advance_def fl_eval)

lemma adv_6: "advance (3602879701896397 / 9007199254740992) = 8646911284551353 / 18014398509481984"
  by (simp add: advance_def fl_eval)

lemma adv_7: "advance (8646911284551353 / 18014398509481984) = 1261007895663739 / 2251799813685248"
  by (simp add: advance_def fl_eval)

lemma adv_8: "advance (1261007895663739 / 2251799813685248) = 5764607523034235 / 9007199254740992"
  by (simp add: advance_def fl_eval)

lemma adv_9: "advance (5764607523034235 / 9007199254740992) = 3242591731706757 / 4503599627370496"
  by (simp add: advance_def fl_eval)

lemma adv_10: "advance (3242591731706757 / 4503599627370496) = 7205759403792793 / 9007199254740992"
  by (simp add: advance_def fl_eval)

lemma adv_11: "advance (7205759403792793 / 9007199254740992) = 990791918021509 / 1125899906842624"
  by (simp add: advance_def fl_eval)

lemma adv_12: "advance (990791918021509 / 1125899906842624) = 8646911284551351 / 9007199254740992"
  by (simp add: advance_def fl_eval)

lemma adv_13: "advance (8646911284551351 / 9007199254740992) = 1"
  by (simp add: advance_def fl_eval)

lemma adv_fix: "advance 1 = 1"
  by (simp add: advance_def fl_eval)

lemmas adv_steps =
  adv_1 adv_2 adv_3 adv_4 adv_5 adv_6 adv_7 adv_8 adv_9 adv_10 adv_11 adv_12 adv_13 adv_fix

lemma adv_seq:
  "(advance ^^ 0) 0 = 0"
  "(advance ^^ 1) 0 = 5764607523034235 / 72057594037927936"
  "(advance ^^ 2) 0 = 5764607523034235 / 36028797018963968"
  "(advance ^^ 3) 0 = 1080863910568919 / 4503599627370496"
  "(advance ^^ 4) 0 = 5764607523034235 / 18014398509481984"
  "(advance ^^ 5) 0 = 3602879701896397 / 9007199254740992"
  "(advance ^^ 6) 0 = 8646911284551353 / 18014398509481984"
  "(advance ^^ 7) 0 = 1261007895663739 / 2251799813685248"
  "(advance ^^ 8) 0 = 5764607523034235 / 9007199254740992"
  "(advance ^^ 9) 0 = 3242591731706757 / 4503599627370496"
  "(advance ^^ 10) 0 = 7205759403792793 / 9007199254740992"
  "(advance ^^ 11) 0 = 990791918021509 / 1125899906842624"
  "(advance ^^ 12) 0 = 8646911284551351 / 9007199254740992"
  "(advance ^^ 13) 0 = 1"
  by (simp_all add: eval_nat_numeral adv_steps)

lemma adv_ge_13: "13 \<le> n \<Longrightarrow> (advance ^^ n) 0 = 1"
proof (induction n rule: dec_induct)
  case base
  show ?case by (rule adv_seq(14))
next
  case (step k)
  then show ?case by (simp add: adv_fix)
qed

lemma below_13_cases:
  "n < 13 \<Longrightarrow> n \<in> {0, 1, 2, 3, 4, 5, 6, 7, 8, 9, 10, 11, 12::nat}"
  by (simp only: insert_iff empty_iff) presburger

lemma adv_lt_13: "n < 13 \<Longrightarrow> (advance ^^ n) 0 < 1"
  by (drule below_13_cases) (auto simp: adv_seq adv_steps)

lemma adv_eq_1_iff: "((advance ^^ n) 0 = 1) = (13 \<le> n)"
proof (cases "13 \<le> n")
  case True
  then show ?thesis by (simp add: adv_ge_13)
next
  case False
  then have "(advance ^^ n) 0 < 1" by (simp add: adv_lt_13)
  with False show ?thesis by simp
qed

lemma adv_le_1: "(advance ^^ n) 0 \<le> 1"
  using adv_lt_13 [of n] adv_ge_13 [of n] by (cases "13 \<le> n") simp_all

lemma adv_mono: "(advance ^^ n) 0 \<le> (advance ^^ Suc n) 0"
proof (cases "12 \<le> n")
  case True
  then have "(advance ^^ Suc n) 0 = 1" by (simp add: adv_ge_13 del: funpow.simps)
  then show ?thesis by (simp only: adv_le_1)
next
  case False
  then have "n \<in> {0, 1, 2, 3, 4, 5, 6, 7, 8, 9, 10, 11::nat}"
    by (simp only: insert_iff empty_iff) presburger
  then show ?thesis by (auto simp: adv_seq adv_steps)
qed


lemma update_flag_fresh:
  "fst (update pw (updates pw n (AnimatedPiece pt c s e))) = (12 \<le> n)"
proof -
  have "fst (update pw (updates pw n (AnimatedPiece pt c s e)))
          = (1 \<le> progress (updates pw (Suc n) (AnimatedPiece pt c s e)))"
    by (simp add: update_flag update_progress)
  also have "\<dots> = (1 \<le> (advance ^^ Suc n) 0)"
    by (simp only: updates_progress)
  also have "\<dots> = ((advance ^^ Suc n) 0 = 1)"
    using adv_le_1 [of "Suc n"] by auto
  also have "\<dots> = (12 \<le> n)"
    by (simp only: adv_eq_1_iff) simp
  finally show ?thesis .
qed

lemma animated_pieces_update_animations:
  "animated_pieces (update_animations pw g)
     = map snd (filter (\<lambda>r. \<not> fst r) (map (update pw) (animated_pieces g)))"
  by (simp add: update_animations_def)

lemma frames_fresh:
  "animated_pieces ((update_animations pw ^^ n) (g\<lparr>animated_pieces := [AnimatedPiece pt c s e]\<rparr>))
     = (if n < 13 then [updates pw n (AnimatedPiece pt c s e)] else [])"
proof (induction n)
  case 0
  show ?case by simp
next
  case (Suc n)
  show ?case
  proof (cases "n < 13")
    case True
    with Suc show ?thesis
      using update_flag_fresh [of pw n pt c s e]
      by (auto simp: animated_pieces_update_animations)
  next
    case False
    with Suc show ?thesis
      by (simp add: animated_pieces_update_animations)
  qed
qed

lemma update_aged:
  "fst (update pw (aged pw (k, a))) = (12 \<le> k)"
  "snd (update pw (aged pw (k, a))) = aged pw (Suc k, a)"
  by (cases a; simp add: aged_def update_flag_fresh)+

lemma one_frame_list:
  "map snd (filter (\<lambda>r. \<not> fst r) (map (update pw) (map (aged pw) ks)))
   = map (aged pw) (map (\<lambda>(k, a). (Suc k, a)) (filter (\<lambda>(k, a). k < 12) ks))"
proof (induction ks)
  case Nil
  show ?case by simp
next
  case (Cons ka ks)
  obtain k a where ka: "ka = (k, a)" by (cases ka)
  from Cons show ?case by (simp add: ka update_aged)
qed

lemma one_frame:
  "animated_pieces (update_animations pw (g\<lparr>animated_pieces := map (aged pw) ks\<rparr>))
   = map (aged pw) (map (\<lambda>(k, a). (Suc k, a)) (filter (\<lambda>(k, a). k < 12) ks))"
  by (simp add: animated_pieces_update_animations one_frame_list del: map_map)

lemma update_animations_depends_on_pieces:
  "animated_pieces g = animated_pieces h \<Longrightarrow>
   animated_pieces (update_animations pw g) = animated_pieces (update_animations pw h)"
  by (simp add: animated_pieces_update_animations)

lemma frames_list:
  "animated_pieces ((update_animations pw ^^ n) (g\<lparr>animated_pieces := map (aged pw) ks\<rparr>))
   = map (aged pw) (map (\<lambda>(k, a). (k + n, a)) (filter (\<lambda>(k, a). n = 0 \<or> k + n < 13) ks))"
proof (induction n)
  case 0
  show ?case by (simp add: case_prod_beta)
next
  case (Suc n)
  let ?ks = "map (\<lambda>(k, a). (k + n, a)) (filter (\<lambda>(k, a). n = 0 \<or> k + n < 13) ks)"
  let ?h = "(update_animations pw ^^ n) (g\<lparr>animated_pieces := map (aged pw) ks\<rparr>)"
  have "animated_pieces (update_animations pw ?h)
          = animated_pieces (update_animations pw (?h\<lparr>animated_pieces := map (aged pw) ?ks\<rparr>))"
    by (rule update_animations_depends_on_pieces) (simp add: Suc)
  also have "\<dots> = map (aged pw) (map (\<lambda>(k, a). (Suc k, a)) (filter (\<lambda>(k, a). k < 12) ?ks))"
    by (rule one_frame)
  also have "map (\<lambda>(k, a). (Suc k, a)) (filter (\<lambda>(k, a). k < 12) ?ks)
               = map (\<lambda>(k, a). (k + Suc n, a)) (filter (\<lambda>(k, a). Suc n = 0 \<or> k + Suc n < 13) ks)"
    by (induction ks) (auto simp: case_prod_beta)
  finally show ?case by simp
qed























section \<open>The claims about the animation\<close>

text \<open>
  C8, as the code has it. For a piece built by the constructor, progress never decreases
  from one \<open>update\<close> call to the next, and the call number \<open>n + 1\<close> returns true exactly when
  \<open>n + 1 \<ge> 13\<close>: false on the first twelve calls, true on the thirteenth and on every
  later call. Each iteration of the loop in \<open>run\<close> calls \<open>update\<close> once on every piece of
  the active list and keeps exactly the pieces whose call returned false: from a list of
  pieces of any number and ages, after \<open>n\<close> iterations the list holds, in order, the
  pieces whose age has stayed below 13, each advanced \<open>n\<close> times. So a piece that stays
  in the list is removed by the iteration in which its thirteenth call returns true, and
  \<open>update\<close> is not called on it again; a fresh piece alone in the list is there for
  twelve iterations and gone from the thirteenth.
\<close>

theorem C8_progress_monotone_flag_from_13th_call:
  "progress (updates pw n (AnimatedPiece pt c s e))
     \<le> progress (updates pw (Suc n) (AnimatedPiece pt c s e))
   \<and> fst (update pw (updates pw n (AnimatedPiece pt c s e))) = (12 \<le> n)
   \<and> animated_pieces
        ((update_animations pw ^^ n) (g\<lparr>animated_pieces := [AnimatedPiece pt c s e]\<rparr>))
       = (if n < 13 then [updates pw n (AnimatedPiece pt c s e)] else [])
   \<and> animated_pieces
        ((update_animations pw ^^ n) (g\<lparr>animated_pieces := map (aged pw) ks\<rparr>))
       = map (aged pw)
           (map (\<lambda>(k, a). (k + n, a)) (filter (\<lambda>(k, a). n = 0 \<or> k + n < 13) ks))"
proof (intro conjI)
  show "progress (updates pw n (AnimatedPiece pt c s e))
          \<le> progress (updates pw (Suc n) (AnimatedPiece pt c s e))"
    by (simp only: updates_progress adv_mono)
  show "fst (update pw (updates pw n (AnimatedPiece pt c s e))) = (12 \<le> n)"
    by (rule update_flag_fresh)
  show "animated_pieces
          ((update_animations pw ^^ n) (g\<lparr>animated_pieces := [AnimatedPiece pt c s e]\<rparr>))
        = (if n < 13 then [updates pw n (AnimatedPiece pt c s e)] else [])"
    by (rule frames_fresh)
  show "animated_pieces
          ((update_animations pw ^^ n) (g\<lparr>animated_pieces := map (aged pw) ks\<rparr>))
        = map (aged pw)
            (map (\<lambda>(k, a). (k + n, a)) (filter (\<lambda>(k, a). n = 0 \<or> k + n < 13) ks))"
    by (rule frames_list)
qed

text \<open>
  C8 as stated fails: \<open>update\<close> does not return true exactly once over every sequence of
  calls. On the piece of the repository's test the thirteenth call returns true and the
  fourteenth call returns true again.
\<close>

theorem C8_update_true_again_on_14th_call:
  "fst (update pow_rounded (updates pow_rounded 12 (AnimatedPiece ''p'' ''b'' (0, 0) (100, 100))))
   \<and> fst (update pow_rounded (updates pow_rounded 13 (AnimatedPiece ''p'' ''b'' (0, 0) (100, 100))))"
  by (simp only: update_flag_fresh) simp


section \<open>Facts about the game\<close>

lemma player_color_print [simp]: "player_color (print line g) = player_color g"
  by (simp add: print_def)

lemma player_color_init_engine_from [simp]:
  "player_color (init_engine_from L ps g) = player_color g"
  by (induction ps arbitrary: g) (simp_all split: sum.splits)

lemma player_color_init_engine [simp]: "player_color (init_engine L g) = player_color g"
  by (simp add: init_engine_def)

lemma player_color_check_game_over [simp]:
  "player_color (check_game_over L g) = player_color g"
  by (simp add: check_game_over_def)

lemma board_check_game_over [simp]: "board (check_game_over L g) = board g"
  by (simp add: check_game_over_def)

lemma player_color_make_move [simp]:
  "player_color (state_of (make_move L mv g)) = player_color g"
  by (simp add: make_move_def Let_def split: option.splits)

lemma player_color_make_move_Returned:
  "make_move L mv g = Returned g' \<Longrightarrow> player_color g' = player_color g"
  using player_color_make_move [of L mv g] by simp

lemma player_color_make_move_Raised:
  "make_move L mv g = Raised x g' \<Longrightarrow> player_color g' = player_color g"
  using player_color_make_move [of L mv g] by simp

lemma player_color_computer_move_failed [simp]:
  "player_color (computer_move_failed x g) = player_color g"
  by (simp add: computer_move_failed_def split: exn.splits)

lemma player_color_make_computer_move [simp]:
  "player_color (make_computer_move L g) = player_color g"
  by (simp add: make_computer_move_def player_color_make_move_Returned
      player_color_make_move_Raised split: option.splits sum.splits outcome.splits)

lemma player_color_computer_turn [simp]:
  "player_color (state_of (computer_turn L t g)) = player_color g"
  by (simp add: computer_turn_def split: option.splits)

lemma player_color_run_frame [simp]:
  "player_color (state_of (run_frame L pw t g)) = player_color g"
  by (simp add: run_frame_def Let_def update_animations_def)

lemma player_color_click_square [simp]:
  "player_color (state_of (click_square L sq g)) = player_color g"
proof (cases "selected_square g")
  case None
  then show ?thesis by (simp add: click_square_def split: option.splits)
next
  case sel: (Some sel)
  show ?thesis
  proof (cases "Move sel sq \<in> set (valid_moves g)")
    case False
    with sel show ?thesis by (simp add: click_square_def)
  next
    case True
    show ?thesis
    proof (cases "piece_at L (board g) sel")
      case None
      with sel True show ?thesis by (simp add: click_square_def)
    next
      case (Some p)
      obtain mv' where mv':
        "mv' = (if piece_type p = PAWN \<and>
                   ((turn L (board g) \<and> square_rank (to_square (Move sel sq)) = 7) \<or>
                    (\<not> turn L (board g) \<and> square_rank (to_square (Move sel sq)) = 0))
                then (Move sel sq)\<lparr>promotion := Some QUEEN\<rparr> else Move sel sq)"
        by simp
      show ?thesis
      proof (cases "make_move L mv' g")
        case (Returned g')
        with sel True Some mv' show ?thesis
          by (simp add: click_square_def player_color_make_move_Returned)
      next
        case (Raised x g')
        with sel True Some mv' show ?thesis
          by (simp add: click_square_def player_color_make_move_Raised)
      qed
    qed
  qed
qed

lemma player_color_handle_event [simp]:
  "player_color (state_of (handle_event L ev g)) = player_color g"
  by (cases ev) (simp_all add: handle_event_def Let_def split: option.splits)

lemma player_color_apply_operation:
  "player_color g = WHITE \<Longrightarrow> player_color (state_of (apply_operation L pw op g)) = WHITE"
  by (cases op)
    (simp_all add: start_vs_computer_def start_vs_human_def start_game_def restart_game_def
      show_menu_def resign_def select_square_def Let_def WHITE_def split: option.splits)

lemma player_color_apply_operations:
  "player_color g = WHITE \<Longrightarrow> player_color (apply_operations L pw ops g) = WHITE"
  by (induction ops arbitrary: g) (simp_all add: player_color_apply_operation)

lemma update_animations_empty:
  "animated_pieces g = [] \<Longrightarrow> update_animations pw g = g"
  by (cases g) (simp add: update_animations_def)

lemma init_engine_from_all_fail:
  "\<forall>path \<in> set ps. isl (popen_uci L path) \<Longrightarrow>
   init_engine_from L ps g =
     g\<lparr>printed := printed g
          @ map (\<lambda>path. ''Failed to initialize engine at '' @ path @ '': ''
                          @ str_exn (projl (popen_uci L path))) ps
          @ [''Could not initialize chess engine. Please make sure Stockfish is installed.'']\<rparr>"
proof (induction ps arbitrary: g)
  case Nil
  show ?case by (simp add: print_def)
next
  case (Cons path ps)
  then obtain x where x: "popen_uci L path = Inl x"
    by (cases "popen_uci L path") auto
  from Cons show ?case by (simp add: x print_def)
qed

lemma make_move_illegal:
  "mv \<notin> set (legal_moves L (board g)) \<Longrightarrow> make_move L mv g = Returned g"
  by (simp add: make_move_def)

lemma make_move_legal:
  assumes "mv \<in> set (legal_moves L (board g))"
    and "piece_at L (board g) (from_square mv) = Some p"
  shows "returned (make_move L mv g)"
    and "board (state_of (make_move L mv g))
           = push L (board g) (normalise_promotion (Some p) mv)"
  using assms by (simp_all add: make_move_def Let_def)

text \<open>
  What holds of the promotion: a legal move of a pawn to its far rank is pushed with the
  queen as promotion piece whatever piece it asked for, so the queen stands on the
  destination when the library's \<open>push\<close> puts the promotion piece there.
\<close>

lemma legal_far_rank_pawn_move_gives_queen:
  assumes "mv \<in> set (legal_moves L (board g))"
    and "piece_at L (board g) (from_square mv) = Some p"
    and "piece_type p = PAWN"
    and "(color p \<and> square_rank (to_square mv) = 7) \<or> (\<not> color p \<and> square_rank (to_square mv) = 0)"
    and "piece_at L (push L (board g) (mv\<lparr>promotion := Some QUEEN\<rparr>)) (to_square mv)
           = Some \<lparr>piece_type = QUEEN, color = color p\<rparr>"
  shows "returned (make_move L mv g)
         \<and> board (state_of (make_move L mv g)) = push L (board g) (mv\<lparr>promotion := Some QUEEN\<rparr>)
         \<and> piece_at L (board (state_of (make_move L mv g))) (to_square mv)
             = Some \<lparr>piece_type = QUEEN, color = color p\<rparr>"
proof -
  have "normalise_promotion (Some p) mv = mv\<lparr>promotion := Some QUEEN\<rparr>"
    using assms(3,4) by (auto simp: normalise_promotion_def)
  with make_move_legal [OF assms(1,2)] assms(5) show ?thesis by simp
qed

subsection \<open>The recorded positions, evaluated\<close>

lemma b7_legal_moves:
  "legal_moves (recorded pawn_b7) (board (test_game pawn_b7))
   = [\<lparr>from_square = 49, to_square = 57, promotion = Some QUEEN\<rparr>,
      \<lparr>from_square = 49, to_square = 57, promotion = Some ROOK\<rparr>,
      \<lparr>from_square = 49, to_square = 57, promotion = Some BISHOP\<rparr>,
      \<lparr>from_square = 49, to_square = 57, promotion = Some KNIGHT\<rparr>]"
  by (simp add: recorded_def pawn_b7_def test_game_def)

lemma b7_bare_advance_illegal:
  "Move 49 57 \<notin> set (legal_moves (recorded pawn_b7) (board (test_game pawn_b7)))"
  by (simp add: b7_legal_moves Move_def)

lemma b7_bare_advance_noop:
  "make_move (recorded pawn_b7) (Move 49 57) (test_game pawn_b7) = Returned (test_game pawn_b7)"
  by (simp add: make_move_illegal b7_bare_advance_illegal)

lemma b7_pawn:
  "piece_at (recorded pawn_b7) (board (test_game pawn_b7)) 49
   = Some \<lparr>piece_type = PAWN, color = True\<rparr>"
  by (simp add: recorded_def pawn_b7_def test_game_def)

lemma b7_push_queen:
  "push (recorded pawn_b7) (board (test_game pawn_b7))
     \<lparr>from_square = 49, to_square = 57, promotion = Some QUEEN\<rparr> = after_promotion QUEEN"
  by (simp add: recorded_def pawn_b7_def test_game_def)

lemma b7_normalise:
  "normalise_promotion (Some \<lparr>piece_type = PAWN, color = True\<rparr>)
     \<lparr>from_square = 49, to_square = 57, promotion = r\<rparr>
   = \<lparr>from_square = 49, to_square = 57, promotion = Some QUEEN\<rparr>"
  by (simp add: normalise_promotion_def square_rank_def)

lemma b8_queen:
  "piece_at (recorded pawn_b7) (after_promotion QUEEN) 57
   = Some \<lparr>piece_type = QUEEN, color = True\<rparr>"
  by (simp add: recorded_def after_promotion_def)

lemma b7_white_to_move: "turn (recorded pawn_b7) (board (test_game pawn_b7)) = True"
  by (simp add: recorded_def pawn_b7_def test_game_def)

lemma b7_make_move:
  "make_move (recorded pawn_b7)
     \<lparr>from_square = 49, to_square = 57, promotion = r\<rparr> (test_game pawn_b7)
   = (if \<lparr>from_square = 49, to_square = 57, promotion = r\<rparr>
           \<in> set (legal_moves (recorded pawn_b7) (board (test_game pawn_b7)))
      then Returned (check_game_over (recorded pawn_b7)
             ((test_game pawn_b7)
                \<lparr>animated_pieces := animated_pieces (test_game pawn_b7) @
                    [AnimatedPiece ''p'' ''w'' (130, 130) (130, 43)],
                 board := after_promotion QUEEN\<rparr>))
      else Returned (test_game pawn_b7))"
proof -
  have sq: "SQUARE_SIZE (test_game pawn_b7) = 87" by (simp add: test_game_def)
  show ?thesis
    by (simp add: make_move_def Let_def b7_pawn b7_push_queen b7_normalise sq symbol_lower_def
        square_file_def square_rank_def)
qed

lemma rook_request_gives_queen:
  "piece_at (recorded pawn_b7)
     (board (state_of (make_move (recorded pawn_b7)
        \<lparr>from_square = 49, to_square = 57, promotion = Some ROOK\<rparr> (test_game pawn_b7)))) 57
   = Some \<lparr>piece_type = QUEEN, color = True\<rparr>"
proof -
  have legal: "\<lparr>from_square = 49, to_square = 57, promotion = Some ROOK\<rparr>
                 \<in> set (legal_moves (recorded pawn_b7) (board (test_game pawn_b7)))"
    by (simp add: b7_legal_moves)
  have origin: "piece_at (recorded pawn_b7) (board (test_game pawn_b7))
                  (from_square \<lparr>from_square = 49, to_square = 57, promotion = Some ROOK\<rparr>)
                = Some \<lparr>piece_type = PAWN, color = True\<rparr>"
    by (simp add: b7_pawn)
  have pawn: "piece_type \<lparr>piece_type = PAWN, color = True\<rparr> = PAWN" by simp
  have far: "(color \<lparr>piece_type = PAWN, color = True\<rparr>
               \<and> square_rank (to_square \<lparr>from_square = 49, to_square = 57, promotion = Some ROOK\<rparr>) = 7)
             \<or> (\<not> color \<lparr>piece_type = PAWN, color = True\<rparr>
               \<and> square_rank (to_square \<lparr>from_square = 49, to_square = 57, promotion = Some ROOK\<rparr>) = 0)"
    by (simp add: square_rank_def)
  have lib: "piece_at (recorded pawn_b7)
               (push (recorded pawn_b7) (board (test_game pawn_b7))
                  (\<lparr>from_square = 49, to_square = 57, promotion = Some ROOK\<rparr>\<lparr>promotion := Some QUEEN\<rparr>))
               (to_square \<lparr>from_square = 49, to_square = 57, promotion = Some ROOK\<rparr>)
             = Some \<lparr>piece_type = QUEEN, color = color \<lparr>piece_type = PAWN, color = True\<rparr>\<rparr>"
    by (simp add: b7_push_queen b8_queen)
  from legal_far_rank_pawn_move_gives_queen
         [OF legal origin pawn far lib, THEN conjunct2, THEN conjunct2]
  show ?thesis by simp
qed

lemma friend_game_fields:
  "SQUARE_SIZE ((test_game p)\<lparr>two_player_mode := Some True\<rparr>) = 87"
  "BOARD_OFFSET ((test_game p)\<lparr>two_player_mode := Some True\<rparr>) = 50"
  "game_over ((test_game p)\<lparr>two_player_mode := Some True\<rparr>) = False"
  "two_player_mode ((test_game p)\<lparr>two_player_mode := Some True\<rparr>) = Some True"
  "selected_square ((test_game p)\<lparr>two_player_mode := Some True\<rparr>) = None"
  "board ((test_game p)\<lparr>two_player_mode := Some True\<rparr>) = p"
  by (simp_all add: test_game_def)

lemma click_b7:
  "handle_event (recorded pawn_b7) (MOUSEBUTTONDOWN 1 (147, 147))
     ((test_game pawn_b7)\<lparr>two_player_mode := Some True\<rparr>)
   = Returned ((test_game pawn_b7)
       \<lparr>two_player_mode := Some True, selected_square := Some 49,
        valid_moves := legal_moves (recorded pawn_b7) pawn_b7\<rparr>)"
proof -
  have sq: "square 1 6 = 49" by (simp add: square_def)
  have lm: "filter (\<lambda>m. from_square m = 49) (legal_moves (recorded pawn_b7) pawn_b7)
              = legal_moves (recorded pawn_b7) pawn_b7"
    by (simp add: recorded_def pawn_b7_def)
  have pc: "piece_at (recorded pawn_b7) pawn_b7 49 = Some \<lparr>piece_type = PAWN, color = True\<rparr>"
    "turn (recorded pawn_b7) pawn_b7 = True"
    by (simp_all add: recorded_def pawn_b7_def)
  show ?thesis
    by (simp add: handle_event_def click_square_def friend_game_fields sq lm pc Let_def)
qed

lemma click_b8:
  "handle_event (recorded pawn_b7) (MOUSEBUTTONDOWN 1 (147, 60))
     ((test_game pawn_b7)
       \<lparr>two_player_mode := Some True, selected_square := Some 49,
        valid_moves := legal_moves (recorded pawn_b7) pawn_b7\<rparr>)
   = Returned ((test_game pawn_b7)
       \<lparr>two_player_mode := Some True, selected_square := None, valid_moves := []\<rparr>)"
proof -
  have sq: "square 1 7 = 57" by (simp add: square_def)
  have nv: "Move 49 57 \<notin> set (legal_moves (recorded pawn_b7) pawn_b7)"
    by (simp add: recorded_def pawn_b7_def Move_def)
  have f: "SQUARE_SIZE (test_game pawn_b7) = 87" "BOARD_OFFSET (test_game pawn_b7) = 50"
    "\<not> game_over (test_game pawn_b7)"
    by (simp_all add: test_game_def)
  show ?thesis
    by (simp add: handle_event_def click_square_def f sq nv Let_def)
qed

lemma mate_legal_moves:
  "legal_moves (recorded mate_in_one) (board (test_game mate_in_one))
   = [\<lparr>from_square = 0, to_square = 56, promotion = None\<rparr>]"
  by (simp add: recorded_def mate_in_one_def test_game_def)

lemma mate_queen:
  "piece_at (recorded mate_in_one) (board (test_game mate_in_one)) 0
   = Some \<lparr>piece_type = QUEEN, color = True\<rparr>"
  by (simp add: recorded_def mate_in_one_def test_game_def)

lemma mate_push:
  "push (recorded mate_in_one) (board (test_game mate_in_one))
     \<lparr>from_square = 0, to_square = 56, promotion = None\<rparr> = mated"
  by (simp add: recorded_def mate_in_one_def test_game_def)

lemma queen_move_not_normalised:
  "normalise_promotion (Some \<lparr>piece_type = QUEEN, color = True\<rparr>) mv = mv"
  by (simp add: normalise_promotion_def)

lemma mate_flags:
  "is_checkmate (recorded mate_in_one) mated"
  "turn (recorded mate_in_one) mated = False"
  "turn (recorded mate_in_one) (board (test_game mate_in_one)) = True"
  "player_color (test_game mate_in_one) = True"
  by (simp_all add: recorded_def mated_def mate_in_one_def test_game_def WHITE_def)

lemma vs_computer_fields:
  "engine (vs_computer_game p e) = Some e"
  "play (recorded q) e b = e"
  "board (vs_computer_game p e) = p"
  "state (vs_computer_game p e) = ''PLAYING''"
  "\<not> game_over (vs_computer_game p e)"
  "two_player_mode (vs_computer_game p e) = Some False"
  "animated_pieces (vs_computer_game p e) = []"
  "player_color (vs_computer_game p e) = True"
  "\<not> computer_move_scheduled (vs_computer_game p e)"
  by (simp_all add: vs_computer_game_def test_game_def recorded_def WHITE_def)

lemma black_to_move_turn: "turn (recorded q) black_to_move = False"
  by (simp add: recorded_def black_to_move_def)

text \<open>
  The frame in which the request is issued: the engine answers without a move, so the
  request stays in flight with its start time.
\<close>

lemma frame_issues_request:
  "run_frame (recorded black_to_move) pw 5000 (vs_computer_game black_to_move (Inr None))
   = Returned ((vs_computer_game black_to_move (Inr None))
       \<lparr>computer_move_scheduled := True, computer_thinking_start := 5000\<rparr>)"
  by (simp add: run_frame_def update_animations_empty computer_turn_def make_computer_move_def
      vs_computer_fields black_to_move_turn)

lemma no_engine_to_launch:
  "popen_uci (recorded q) path = Inl (OtherException ''No such file or directory'')"
  by (simp add: recorded_def)

lemma constructed_without_engine:
  "engine (ChessGame (recorded q) w h) = None"
  "state (ChessGame (recorded q) w h) = ''MENU''"
  by (simp_all add: ChessGame_def Let_def stockfish_paths_def no_engine_to_launch)

lemma recorded_answers:
  "legal_moves (recorded q) b = map fst (moves b)"
  "piece_at (recorded q) b sq = map_of (pieces b) sq"
  "push (recorded q) b mv = (case map_of (moves b) mv of None \<Rightarrow> b | Some b' \<Rightarrow> b')"
  "is_checkmate (recorded q) b = checkmate b"
  "is_stalemate (recorded q) b = stalemate b"
  "is_insufficient_material (recorded q) b = insufficient b"
  "turn (recorded q) b = to_move b"
  by (simp_all add: recorded_def)

lemma knight_mate_legal_moves:
  "legal_moves (recorded q) knight_mate_in_one
   = [\<lparr>from_square = 14, to_square = 6, promotion = Some QUEEN\<rparr>,
      \<lparr>from_square = 14, to_square = 6, promotion = Some ROOK\<rparr>,
      \<lparr>from_square = 14, to_square = 6, promotion = Some BISHOP\<rparr>,
      \<lparr>from_square = 14, to_square = 6, promotion = Some KNIGHT\<rparr>]"
  by (simp add: recorded_answers knight_mate_in_one_def)

lemma knight_mate_pawn:
  "piece_at (recorded q) knight_mate_in_one 14 = Some \<lparr>piece_type = PAWN, color = False\<rparr>"
  by (simp add: recorded_answers knight_mate_in_one_def)

lemma knight_mate_push:
  "push (recorded q) knight_mate_in_one
     \<lparr>from_square = 14, to_square = 6, promotion = Some KNIGHT\<rparr> = after_g1 KNIGHT"
  "push (recorded q) knight_mate_in_one
     \<lparr>from_square = 14, to_square = 6, promotion = Some QUEEN\<rparr> = after_g1 QUEEN"
  by (simp_all add: recorded_answers knight_mate_in_one_def)

lemma g1_normalise:
  "normalise_promotion (Some \<lparr>piece_type = PAWN, color = False\<rparr>)
     \<lparr>from_square = 14, to_square = 6, promotion = r\<rparr>
   = \<lparr>from_square = 14, to_square = 6, promotion = Some QUEEN\<rparr>"
  by (simp add: normalise_promotion_def square_rank_def)

lemma after_g1_flags:
  "is_checkmate (recorded q) (after_g1 KNIGHT)"
  "\<not> is_checkmate (recorded q) (after_g1 QUEEN)"
  "\<not> is_stalemate (recorded q) (after_g1 QUEEN)"
  "\<not> is_insufficient_material (recorded q) (after_g1 QUEEN)"
  "turn (recorded q) (after_g1 KNIGHT) = True"
  "turn (recorded q) knight_mate_in_one = False"
  by (simp_all add: recorded_answers after_g1_def knight_mate_in_one_def)

lemma check_game_over_not_terminal:
  "\<not> is_checkmate L (board g) \<Longrightarrow> \<not> is_stalemate L (board g) \<Longrightarrow>
   \<not> is_insufficient_material L (board g) \<Longrightarrow> check_game_over L g = g"
  by (simp add: check_game_over_def)

lemma knight_request_pushed_as_queen:
  assumes "board g = knight_mate_in_one"
  shows "returned (make_move (recorded q)
           \<lparr>from_square = 14, to_square = 6, promotion = Some KNIGHT\<rparr> g)"
    and "board (state_of (make_move (recorded q)
           \<lparr>from_square = 14, to_square = 6, promotion = Some KNIGHT\<rparr> g)) = after_g1 QUEEN"
    and "game_over (state_of (make_move (recorded q)
           \<lparr>from_square = 14, to_square = 6, promotion = Some KNIGHT\<rparr> g)) = game_over g"
    and "winner (state_of (make_move (recorded q)
           \<lparr>from_square = 14, to_square = 6, promotion = Some KNIGHT\<rparr> g)) = winner g"
proof -
  let ?mv = "\<lparr>from_square = 14, to_square = 6, promotion = Some KNIGHT\<rparr>"
  let ?L = "recorded q :: (position, exn + move option) library"
  have legal: "?mv \<in> set (legal_moves ?L (board g))"
    by (simp add: assms knight_mate_legal_moves)
  have origin: "piece_at ?L (board g) (from_square ?mv)
                  = Some \<lparr>piece_type = PAWN, color = False\<rparr>"
    by (simp add: assms knight_mate_pawn)
  have mm: "make_move ?L ?mv g =
              Returned (check_game_over ?L
                (g\<lparr>animated_pieces := animated_pieces g @
                     [AnimatedPiece ''p'' ''b''
                        (6 * SQUARE_SIZE g + SQUARE_SIZE g div 2,
                         6 * SQUARE_SIZE g + SQUARE_SIZE g div 2)
                        (6 * SQUARE_SIZE g + SQUARE_SIZE g div 2,
                         7 * SQUARE_SIZE g + SQUARE_SIZE g div 2)],
                   board := after_g1 QUEEN\<rparr>))"
    using legal origin
    by (simp add: make_move_def Let_def g1_normalise symbol_lower_def square_file_def
        square_rank_def assms knight_mate_push)
  have cg: "check_game_over ?L
                (g\<lparr>animated_pieces := animated_pieces g @
                     [AnimatedPiece ''p'' ''b''
                        (6 * SQUARE_SIZE g + SQUARE_SIZE g div 2,
                         6 * SQUARE_SIZE g + SQUARE_SIZE g div 2)
                        (6 * SQUARE_SIZE g + SQUARE_SIZE g div 2,
                         7 * SQUARE_SIZE g + SQUARE_SIZE g div 2)],
                   board := after_g1 QUEEN\<rparr>)
            = g\<lparr>animated_pieces := animated_pieces g @
                     [AnimatedPiece ''p'' ''b''
                        (6 * SQUARE_SIZE g + SQUARE_SIZE g div 2,
                         6 * SQUARE_SIZE g + SQUARE_SIZE g div 2)
                        (6 * SQUARE_SIZE g + SQUARE_SIZE g div 2,
                         7 * SQUARE_SIZE g + SQUARE_SIZE g div 2)],
                   board := after_g1 QUEEN\<rparr>"
    by (rule check_game_over_not_terminal) (simp_all add: after_g1_flags)
  show "returned (make_move ?L ?mv g)" by (simp add: mm)
  show "board (state_of (make_move ?L ?mv g)) = after_g1 QUEEN" by (simp add: mm cg)
  show "game_over (state_of (make_move ?L ?mv g)) = game_over g" by (simp add: mm cg)
  show "winner (state_of (make_move ?L ?mv g)) = winner g" by (simp add: mm cg)
qed

lemma knight_game_fields:
  "board (test_game knight_mate_in_one) = knight_mate_in_one"
  "\<not> game_over (test_game knight_mate_in_one)"
  "winner (test_game knight_mate_in_one) = PyNone"
  "board (vs_computer_game knight_mate_in_one e) = knight_mate_in_one"
  "\<not> game_over (vs_computer_game knight_mate_in_one e)"
  by (simp_all add: test_game_def vs_computer_game_def)

lemma frame_engine_error:
  "run_frame (recorded black_to_move) pw 5000
     (vs_computer_game black_to_move (Inl (EngineError ''engine error'')))
   = Returned ((vs_computer_game black_to_move (Inl (EngineError ''engine error'')))
       \<lparr>computer_move_scheduled := True, computer_thinking_start := 5000,
        printed := [''Error making computer move: engine error''],
        game_over := True, winner := PyStr ''player''\<rparr>)"
proof -
  have p: "printed (vs_computer_game black_to_move (Inl (EngineError ''engine error''))) = []"
    by (simp add: vs_computer_game_def test_game_def)
  show ?thesis
    by (simp add: run_frame_def update_animations_empty computer_turn_def make_computer_move_def
        computer_move_failed_def print_def vs_computer_fields black_to_move_turn p)
qed

section \<open>The claims about the game\<close>

text \<open>
  C1, as the code has it. \<open>make_move\<close> is gated by membership in the library's legal-move
  set of the position before the call. A move outside the set changes nothing: the call
  returns the object as it was (position, animation list, game-over flag, winner and
  output included). A move in the set, with a piece on its origin square, is applied:
  the call returns and the position is the library's \<open>push\<close> of the move, its promotion
  set to the queen when it takes a pawn to its far rank. The function has no return
  value and prints nothing, so a rejected move is not reported.
\<close>

theorem C1_make_move_gated_by_legality:
  "(mv \<notin> set (legal_moves L (board g)) \<longrightarrow> make_move L mv g = Returned g)
   \<and> (mv \<in> set (legal_moves L (board g)) \<and> piece_at L (board g) (from_square mv) = Some p
        \<longrightarrow> returned (make_move L mv g)
            \<and> board (state_of (make_move L mv g))
                = push L (board g) (normalise_promotion (Some p) mv))"
  by (simp add: make_move_illegal make_move_legal)

text \<open>
  C1 at the promotion test's position: the advance b7-b8 without a promotion piece is
  outside the legal-move set and leaves the game as it was; the advance asking for a rook
  is in the set and is applied (as the queen promotion).
\<close>

theorem C1_witness_bare_advance_and_rook_request:
  "make_move (recorded pawn_b7) (Move 49 57) (test_game pawn_b7) = Returned (test_game pawn_b7)
   \<and> returned (make_move (recorded pawn_b7)
        \<lparr>from_square = 49, to_square = 57, promotion = Some ROOK\<rparr> (test_game pawn_b7))
   \<and> board (state_of (make_move (recorded pawn_b7)
        \<lparr>from_square = 49, to_square = 57, promotion = Some ROOK\<rparr> (test_game pawn_b7)))
       = after_promotion QUEEN"
proof -
  have legal: "\<lparr>from_square = 49, to_square = 57, promotion = Some ROOK\<rparr>
                 \<in> set (legal_moves (recorded pawn_b7) (board (test_game pawn_b7)))"
    by (simp add: b7_legal_moves)
  have origin: "piece_at (recorded pawn_b7) (board (test_game pawn_b7))
                  (from_square \<lparr>from_square = 49, to_square = 57, promotion = Some ROOK\<rparr>)
                = Some \<lparr>piece_type = PAWN, color = True\<rparr>"
    by (simp add: b7_pawn)
  from C1_make_move_gated_by_legality
         [of "Move 49 57" "recorded pawn_b7" "test_game pawn_b7"] b7_bare_advance_illegal
  have first: "make_move (recorded pawn_b7) (Move 49 57) (test_game pawn_b7)
                 = Returned (test_game pawn_b7)"
    by blast
  from C1_make_move_gated_by_legality
         [of "\<lparr>from_square = 49, to_square = 57, promotion = Some ROOK\<rparr>" "recorded pawn_b7"
             "test_game pawn_b7" "\<lparr>piece_type = PAWN, color = True\<rparr>"] legal origin
  have second: "returned (make_move (recorded pawn_b7)
                  \<lparr>from_square = 49, to_square = 57, promotion = Some ROOK\<rparr> (test_game pawn_b7))
                \<and> board (state_of (make_move (recorded pawn_b7)
                  \<lparr>from_square = 49, to_square = 57, promotion = Some ROOK\<rparr> (test_game pawn_b7)))
                  = push (recorded pawn_b7) (board (test_game pawn_b7))
                      (normalise_promotion (Some \<lparr>piece_type = PAWN, color = True\<rparr>)
                         \<lparr>from_square = 49, to_square = 57, promotion = Some ROOK\<rparr>)"
    by blast
  from first second show ?thesis by (simp only: b7_normalise b7_push_queen)
qed

text \<open>
  C1 as stated fails where it says that a move outside the legal-move set is reported as
  a failure. The rejected advance b7-b8 returns normally, as the legal queen promotion
  does, with the object unchanged and nothing printed.
\<close>

theorem C1_rejected_move_is_not_reported:
  "Move 49 57 \<notin> set (legal_moves (recorded pawn_b7) (board (test_game pawn_b7)))
   \<and> make_move (recorded pawn_b7) (Move 49 57) (test_game pawn_b7) = Returned (test_game pawn_b7)
   \<and> printed (test_game pawn_b7) = []
   \<and> returned (make_move (recorded pawn_b7)
        \<lparr>from_square = 49, to_square = 57, promotion = Some QUEEN\<rparr> (test_game pawn_b7))"
proof -
  have "printed (test_game pawn_b7) = []" by (simp add: test_game_def)
  moreover have "returned (make_move (recorded pawn_b7)
        \<lparr>from_square = 49, to_square = 57, promotion = Some QUEEN\<rparr> (test_game pawn_b7))"
    by (simp add: b7_make_move b7_legal_moves)
  ultimately show ?thesis using b7_bare_advance_illegal b7_bare_advance_noop by simp
qed

text \<open>
  C2 fails on the code for a move that asks for no promotion piece. At the promotion
  test's position the white pawn on b7 can reach b8 (the queen promotion is legal) and
  White is to move, but \<open>make_move\<close> of the advance b7-b8 without a promotion piece is
  rejected by the legality test before the queen is put on the move: the game is left as
  it was and b8 stays empty. The board input fails the same way: after a press on b7
  the press on b8 builds the move without a promotion piece, does not find it among
  the selection's moves, and only clears the selection with the pawn still on b7.
\<close>

theorem C2_advance_without_promotion_piece_is_not_applied:
  "\<lparr>from_square = 49, to_square = 57, promotion = Some QUEEN\<rparr>
     \<in> set (legal_moves (recorded pawn_b7) (board (test_game pawn_b7)))
   \<and> piece_at (recorded pawn_b7) (board (test_game pawn_b7)) 49
       = Some \<lparr>piece_type = PAWN, color = True\<rparr>
   \<and> turn (recorded pawn_b7) (board (test_game pawn_b7)) = True
   \<and> make_move (recorded pawn_b7) (Move 49 57) (test_game pawn_b7) = Returned (test_game pawn_b7)
   \<and> piece_at (recorded pawn_b7)
        (board (state_of (make_move (recorded pawn_b7) (Move 49 57) (test_game pawn_b7)))) 57
       = None
   \<and> handle_event (recorded pawn_b7) (MOUSEBUTTONDOWN 1 (147, 60))
        (state_of (handle_event (recorded pawn_b7) (MOUSEBUTTONDOWN 1 (147, 147))
           ((test_game pawn_b7)\<lparr>two_player_mode := Some True\<rparr>)))
       = Returned ((test_game pawn_b7)
           \<lparr>two_player_mode := Some True, selected_square := None, valid_moves := []\<rparr>)"
proof -
  have "piece_at (recorded pawn_b7) (board (test_game pawn_b7)) 57 = None"
    by (simp add: recorded_def pawn_b7_def test_game_def)
  then show ?thesis
    by (simp add: b7_legal_moves b7_bare_advance_noop b7_pawn b7_white_to_move click_b7 click_b8)
qed

text \<open>
  C3, as the code has it. \<open>make_move\<close> pushes the move with its promotion set to the
  queen when it takes a pawn to its far rank. When a legal move (with a piece on its
  origin square) delivers checkmate in the form in which it is pushed, that is, the
  library reports checkmate for the position after the push, with the turn passed to the
  other side, \<open>make_move\<close> returns with the game-over flag set and the winner is the side
  that moved: \<open>player\<close> when that side is \<open>player_color\<close>, \<open>computer\<close> otherwise.
\<close>

theorem C3_checkmate_by_pushed_move:
  assumes "mv \<in> set (legal_moves L (board g))"
    and "piece_at L (board g) (from_square mv) = Some p"
    and "is_checkmate L (push L (board g) (normalise_promotion (Some p) mv))"
    and "turn L (push L (board g) (normalise_promotion (Some p) mv)) = (\<not> turn L (board g))"
  shows "returned (make_move L mv g)
         \<and> game_over (state_of (make_move L mv g))
         \<and> winner (state_of (make_move L mv g))
             = (if turn L (board g) = player_color g then PyStr ''player'' else PyStr ''computer'')"
proof -
  let ?h = "g\<lparr>animated_pieces := animated_pieces g @
                 [AnimatedPiece (symbol_lower p) (if color p then ''w'' else ''b'')
                    (int (square_file (from_square (normalise_promotion (Some p) mv))) * SQUARE_SIZE g
                       + SQUARE_SIZE g div 2,
                     (7 - int (square_rank (from_square (normalise_promotion (Some p) mv)))) * SQUARE_SIZE g
                       + SQUARE_SIZE g div 2)
                    (int (square_file (to_square (normalise_promotion (Some p) mv))) * SQUARE_SIZE g
                       + SQUARE_SIZE g div 2,
                     (7 - int (square_rank (to_square (normalise_promotion (Some p) mv)))) * SQUARE_SIZE g
                       + SQUARE_SIZE g div 2)],
               board := push L (board g) (normalise_promotion (Some p) mv)\<rparr>"
  have mm: "make_move L mv g = Returned (check_game_over L ?h)"
    using assms(1,2) by (simp add: make_move_def Let_def)
  have b: "is_checkmate L (board ?h)" "turn L (board ?h) = (\<not> turn L (board g))"
    using assms(3,4) by simp_all
  have "game_over (check_game_over L ?h)
        \<and> winner (check_game_over L ?h)
            = (if turn L (board g) = player_color g then PyStr ''player'' else PyStr ''computer'')"
    using b by (cases "turn L (board g)"; cases "player_color g")
      (simp_all add: check_game_over_def WHITE_def)
  then show ?thesis by (simp add: mm)
qed

text \<open>
  C3 at the mate in one: White, the player's colour, mates with Qa1-a8; the game is over
  and the player has won.
\<close>

theorem C3_witness_queen_mates_on_a8:
  "returned (make_move (recorded mate_in_one)
      \<lparr>from_square = 0, to_square = 56, promotion = None\<rparr> (test_game mate_in_one))
   \<and> game_over (state_of (make_move (recorded mate_in_one)
      \<lparr>from_square = 0, to_square = 56, promotion = None\<rparr> (test_game mate_in_one)))
   \<and> winner (state_of (make_move (recorded mate_in_one)
      \<lparr>from_square = 0, to_square = 56, promotion = None\<rparr> (test_game mate_in_one)))
       = PyStr ''player''"
proof -
  let ?mv = "\<lparr>from_square = 0, to_square = 56, promotion = None\<rparr>"
  have legal: "?mv \<in> set (legal_moves (recorded mate_in_one) (board (test_game mate_in_one)))"
    by (simp add: mate_legal_moves)
  have origin: "piece_at (recorded mate_in_one) (board (test_game mate_in_one)) (from_square ?mv)
                = Some \<lparr>piece_type = QUEEN, color = True\<rparr>"
    by (simp add: mate_queen)
  have mate: "is_checkmate (recorded mate_in_one)
                (push (recorded mate_in_one) (board (test_game mate_in_one))
                   (normalise_promotion (Some \<lparr>piece_type = QUEEN, color = True\<rparr>) ?mv))"
    by (simp add: queen_move_not_normalised mate_push mate_flags)
  have flip: "turn (recorded mate_in_one)
                (push (recorded mate_in_one) (board (test_game mate_in_one))
                   (normalise_promotion (Some \<lparr>piece_type = QUEEN, color = True\<rparr>) ?mv))
              = (\<not> turn (recorded mate_in_one) (board (test_game mate_in_one)))"
    by (simp add: queen_move_not_normalised mate_push mate_flags)
  from C3_checkmate_by_pushed_move [OF legal origin mate flip]
  show ?thesis by (simp add: mate_flags)
qed

text \<open>
  C3 as stated fails for a move that mates by under-promotion. In the recorded position
  Black's g2-g1 promoting to a knight is legal and delivers checkmate, but \<open>make_move\<close>
  pushes it as the queen promotion, after which White is neither mated nor stalemated:
  the game-over flag stays clear and there is no winner, also when the move comes from
  the engine.
\<close>

theorem C3_mating_knight_promotion_is_pushed_as_queen:
  "\<lparr>from_square = 14, to_square = 6, promotion = Some KNIGHT\<rparr>
     \<in> set (legal_moves (recorded knight_mate_in_one) (board (test_game knight_mate_in_one)))
   \<and> is_checkmate (recorded knight_mate_in_one)
        (push (recorded knight_mate_in_one) (board (test_game knight_mate_in_one))
           \<lparr>from_square = 14, to_square = 6, promotion = Some KNIGHT\<rparr>)
   \<and> returned (make_move (recorded knight_mate_in_one)
        \<lparr>from_square = 14, to_square = 6, promotion = Some KNIGHT\<rparr> (test_game knight_mate_in_one))
   \<and> \<not> game_over (state_of (make_move (recorded knight_mate_in_one)
        \<lparr>from_square = 14, to_square = 6, promotion = Some KNIGHT\<rparr> (test_game knight_mate_in_one)))
   \<and> winner (state_of (make_move (recorded knight_mate_in_one)
        \<lparr>from_square = 14, to_square = 6, promotion = Some KNIGHT\<rparr> (test_game knight_mate_in_one)))
       = PyNone
   \<and> \<not> game_over (make_computer_move (recorded knight_mate_in_one)
        (vs_computer_game knight_mate_in_one
           (Inr (Some \<lparr>from_square = 14, to_square = 6, promotion = Some KNIGHT\<rparr>))))"
proof -
  let ?mv = "\<lparr>from_square = 14, to_square = 6, promotion = Some KNIGHT\<rparr>"
  let ?L = "recorded knight_mate_in_one"
  let ?g = "vs_computer_game knight_mate_in_one (Inr (Some ?mv))"
  have a: "?mv \<in> set (legal_moves ?L (board (test_game knight_mate_in_one)))"
    by (simp add: knight_game_fields knight_mate_legal_moves)
  have b: "is_checkmate ?L (push ?L (board (test_game knight_mate_in_one)) ?mv)"
    by (simp add: knight_game_fields knight_mate_push after_g1_flags)
  note t = knight_request_pushed_as_queen [OF knight_game_fields(1), where q = knight_mate_in_one]
  note c = knight_request_pushed_as_queen
    [OF knight_game_fields(4), where q = knight_mate_in_one and e1 = "Inr (Some ?mv)"]
  obtain g' where g': "make_move ?L ?mv ?g = Returned g'"
    using c(1) by (cases "make_move ?L ?mv ?g") simp_all
  have "\<not> game_over g'" using c(3) by (simp add: g' knight_game_fields)
  then have d: "\<not> game_over (make_computer_move ?L ?g)"
    by (simp add: make_computer_move_def vs_computer_fields move_bool_def g')
  from a b t d show ?thesis by (simp add: knight_game_fields)
qed

text \<open>
  C4 fails on the code in the winner it records. \<open>resign\<close> sets the game-over flag and
  reads only the side to move (a library with other terminal-state answers gives the same
  result), but it stores the colour opposite to the side to move as a boolean, not one of
  the strings \<open>player\<close> and \<open>computer\<close> that checkmate, engine failure and timeout store
  and that \<open>draw_game_over\<close> tests for: after a resignation the overlay shows the plain
  ``Game Over'' with no winner.
\<close>

theorem C4_resign_records_a_colour:
  "game_over (resign L g)
   \<and> winner (resign L g) = PyBool (\<not> turn L (board g))
   \<and> winner (resign L g) \<noteq> PyStr ''player''
   \<and> winner (resign L g) \<noteq> PyStr ''computer''
   \<and> game_over_message (winner (resign L g)) = (''Game Over'', '''')
   \<and> resign (L\<lparr>is_checkmate := c, is_stalemate := s, is_insufficient_material := i\<rparr>) g
       = resign L g"
  by (simp add: resign_def WHITE_def BLACK_def game_over_message_def)

text \<open>
  C5, as the code has it. In state PLAYING against the computer, under the guard of the
  loop (the game is not over, it is the computer's turn and no animation is pending) and
  with a request in flight, an iteration of the loop more than 1000 ms after the request
  started prints the timeout line, clears the in-flight flag and its start time, sets the
  game-over flag and records \<open>player\<close> as winner. Nothing else changes; the engine handle
  is kept.
\<close>

theorem C5_timeout_forfeits_to_player:
  assumes "state g = ''PLAYING''"
    and "\<not> game_over g"
    and "two_player_mode g = Some False"
    and "computer_move_scheduled g"
    and "turn L (board g) \<noteq> player_color g"
    and "animated_pieces g = []"
    and "current_time - computer_thinking_start g > 1000"
  shows "run_frame L pw current_time g =
           Returned (g\<lparr>printed := printed g @ [''Computer move timed out''],
                       computer_move_scheduled := False, computer_thinking_start := 0,
                       game_over := True, winner := PyStr ''player''\<rparr>)
         \<and> engine (state_of (run_frame L pw current_time g)) = engine g"
  using assms
  by (simp add: run_frame_def update_animations_empty computer_turn_def print_def)

text \<open>
  C5 on a run of the loop: Black (the computer) is to move; the iteration at 5000 ms
  issues the request, which the engine answers without a move; the iteration at 7000 ms
  times out.
\<close>

theorem C5_witness_request_two_seconds_old:
  "game_over (state_of (run_frame (recorded black_to_move) pow_rounded 7000
     (state_of (run_frame (recorded black_to_move) pow_rounded 5000
        (vs_computer_game black_to_move (Inr None))))))
   \<and> winner (state_of (run_frame (recorded black_to_move) pow_rounded 7000
     (state_of (run_frame (recorded black_to_move) pow_rounded 5000
        (vs_computer_game black_to_move (Inr None))))))
       = PyStr ''player''
   \<and> \<not> computer_move_scheduled (state_of (run_frame (recorded black_to_move) pow_rounded 7000
     (state_of (run_frame (recorded black_to_move) pow_rounded 5000
        (vs_computer_game black_to_move (Inr None))))))
   \<and> engine (state_of (run_frame (recorded black_to_move) pow_rounded 7000
     (state_of (run_frame (recorded black_to_move) pow_rounded 5000
        (vs_computer_game black_to_move (Inr None))))))
       = Some (Inr None)"
proof -
  let ?g = "(vs_computer_game black_to_move (Inr None))
              \<lparr>computer_move_scheduled := True, computer_thinking_start := 5000\<rparr>"
  have h: "state ?g = ''PLAYING''" "\<not> game_over ?g" "two_player_mode ?g = Some False"
    "computer_move_scheduled ?g"
    "turn (recorded black_to_move) (board ?g) \<noteq> player_color ?g"
    "animated_pieces ?g = []" "7000 - computer_thinking_start ?g > 1000"
    by (simp_all add: vs_computer_fields black_to_move_turn)
  from C5_timeout_forfeits_to_player [OF h, of pow_rounded]
  show ?thesis by (simp add: frame_issues_request vs_computer_fields)
qed

text \<open>
  C5 as stated fails outside that guard. When the engine raises an error on the request,
  the game is forfeited with the request still marked in flight; the state is PLAYING
  against the computer with the flag set, and an iteration 2000 ms after the request
  started leaves it as it is: the flag and the start time are not cleared.
\<close>

theorem C5_flag_stays_set_once_game_is_over:
  "state (state_of (run_frame (recorded black_to_move) pow_rounded 5000
      (vs_computer_game black_to_move (Inl (EngineError ''engine error''))))) = ''PLAYING''
   \<and> two_player_mode (state_of (run_frame (recorded black_to_move) pow_rounded 5000
      (vs_computer_game black_to_move (Inl (EngineError ''engine error''))))) = Some False
   \<and> computer_move_scheduled (state_of (run_frame (recorded black_to_move) pow_rounded 5000
      (vs_computer_game black_to_move (Inl (EngineError ''engine error'')))))
   \<and> computer_thinking_start (state_of (run_frame (recorded black_to_move) pow_rounded 5000
      (vs_computer_game black_to_move (Inl (EngineError ''engine error''))))) = 5000
   \<and> run_frame (recorded black_to_move) pow_rounded 7000
        (state_of (run_frame (recorded black_to_move) pow_rounded 5000
           (vs_computer_game black_to_move (Inl (EngineError ''engine error'')))))
       = Returned (state_of (run_frame (recorded black_to_move) pow_rounded 5000
           (vs_computer_game black_to_move (Inl (EngineError ''engine error'')))))"
proof -
  let ?g1 = "(vs_computer_game black_to_move (Inl (EngineError ''engine error'')))
       \<lparr>computer_move_scheduled := True, computer_thinking_start := 5000,
        printed := [''Error making computer move: engine error''],
        game_over := True, winner := PyStr ''player''\<rparr>"
  have first: "state_of (run_frame (recorded black_to_move) pow_rounded 5000
      (vs_computer_game black_to_move (Inl (EngineError ''engine error'')))) = ?g1"
    by (simp only: frame_engine_error state_of.simps)
  have fields: "state ?g1 = ''PLAYING''" "two_player_mode ?g1 = Some False"
    "computer_move_scheduled ?g1" "computer_thinking_start ?g1 = 5000"
    "animated_pieces ?g1 = []" "game_over ?g1"
    by (simp_all add: vs_computer_fields)
  have second: "run_frame (recorded black_to_move) pow_rounded 7000 ?g1 = Returned ?g1"
    by (simp add: run_frame_def update_animations_empty fields computer_turn_def)
  show ?thesis
    unfolding first using fields second by simp
qed

text \<open>
  C6, as the code has it. When the engine's \<open>play\<close> raises, \<open>make_computer_move\<close> sets the
  game-over flag and records \<open>player\<close> as winner; it drops the engine handle when the
  error is \<open>EngineTerminatedError\<close> and keeps it for every other error.
\<close>

theorem C6_engine_failure_forfeits:
  assumes "engine g = Some e"
    and "play L e (board g) = Inl x"
  shows "game_over (make_computer_move L g)
         \<and> winner (make_computer_move L g) = PyStr ''player''
         \<and> engine (make_computer_move L g)
             = (if is_engine_terminated x then None else Some e)"
  using assms
  by (cases x) (simp_all add: make_computer_move_def computer_move_failed_def print_def)

text \<open>C6 on an engine whose process has died: forfeit, and the handle is dropped.\<close>

theorem C6_witness_engine_terminated:
  "game_over (make_computer_move (recorded black_to_move)
     (vs_computer_game black_to_move (Inl (EngineTerminatedError ''engine process died''))))
   \<and> winner (make_computer_move (recorded black_to_move)
     (vs_computer_game black_to_move (Inl (EngineTerminatedError ''engine process died''))))
       = PyStr ''player''
   \<and> engine (make_computer_move (recorded black_to_move)
     (vs_computer_game black_to_move (Inl (EngineTerminatedError ''engine process died''))))
       = None"
proof -
  let ?e = "Inl (EngineTerminatedError ''engine process died'') :: exn + move option"
  have h: "engine (vs_computer_game black_to_move ?e) = Some ?e"
    "play (recorded black_to_move) ?e (board (vs_computer_game black_to_move ?e))
       = Inl (EngineTerminatedError ''engine process died'')"
    by (simp_all add: vs_computer_fields)
  from C6_engine_failure_forfeits [OF h] show ?thesis by simp
qed

text \<open>
  C6 as stated fails for an engine error other than termination: the game is forfeited
  to the player, but the engine handle is still in place afterwards.
\<close>

theorem C6_engine_kept_after_other_engine_error:
  "game_over (make_computer_move (recorded black_to_move)
     (vs_computer_game black_to_move (Inl (EngineError ''engine error''))))
   \<and> winner (make_computer_move (recorded black_to_move)
     (vs_computer_game black_to_move (Inl (EngineError ''engine error''))))
       = PyStr ''player''
   \<and> engine (make_computer_move (recorded black_to_move)
     (vs_computer_game black_to_move (Inl (EngineError ''engine error''))))
       = Some (Inl (EngineError ''engine error''))"
  by (simp add: make_computer_move_def computer_move_failed_def print_def vs_computer_fields)

text \<open>
  C7. With no engine handle and every candidate path failing to launch,
  \<open>start_vs_computer\<close> returns without raising and changes nothing but the output: one
  line per failed path, the line that the engine could not be initialised, and the line
  that the engine is not available. The engine stays absent, the state stays what it was
  (MENU when the call comes from the menu), and board, selection and game-over flag are
  not reset.
\<close>

theorem C7_start_vs_computer_refused:
  assumes "engine g = None"
    and "\<forall>path \<in> set stockfish_paths. isl (popen_uci L path)"
  shows "start_vs_computer L g =
           g\<lparr>printed := printed g
                @ map (\<lambda>path. ''Failed to initialize engine at '' @ path @ '': ''
                                @ str_exn (projl (popen_uci L path))) stockfish_paths
                @ [''Could not initialize chess engine. Please make sure Stockfish is installed.'',
                   ''Chess engine not available. Please install Stockfish to play against computer.'']\<rparr>
         \<and> engine (start_vs_computer L g) = None
         \<and> state (start_vs_computer L g) = state g
         \<and> board (start_vs_computer L g) = board g
         \<and> selected_square (start_vs_computer L g) = selected_square g
         \<and> game_over (start_vs_computer L g) = game_over g"
proof -
  have "start_vs_computer L g =
           g\<lparr>printed := printed g
                @ map (\<lambda>path. ''Failed to initialize engine at '' @ path @ '': ''
                                @ str_exn (projl (popen_uci L path))) stockfish_paths
                @ [''Could not initialize chess engine. Please make sure Stockfish is installed.'',
                   ''Chess engine not available. Please install Stockfish to play against computer.'']\<rparr>"
    using assms
    by (simp add: start_vs_computer_def init_engine_def init_engine_from_all_fail print_def
        Let_def)
  then show ?thesis using assms(1) by simp
qed

text \<open>
  C7 on a freshly constructed game where no engine can be launched: the game is in the
  menu without an engine, and stays so.
\<close>

theorem C7_witness_no_engine_installed:
  "engine (start_vs_computer (recorded pawn_b7) (ChessGame (recorded pawn_b7) 1200 800)) = None
   \<and> state (start_vs_computer (recorded pawn_b7) (ChessGame (recorded pawn_b7) 1200 800)) = ''MENU''
   \<and> board (start_vs_computer (recorded pawn_b7) (ChessGame (recorded pawn_b7) 1200 800))
       = board (ChessGame (recorded pawn_b7) 1200 800)"
proof -
  have h: "engine (ChessGame (recorded pawn_b7) 1200 800) = None"
    "\<forall>path \<in> set stockfish_paths. isl (popen_uci (recorded pawn_b7) path)"
    by (simp_all add: no_engine_to_launch constructed_without_engine)
  from C7_start_vs_computer_refused [OF h] show ?thesis
    by (simp add: constructed_without_engine)
qed

text \<open>
  C10. The constructor sets \<open>player_color\<close> to White, and it is White after any sequence
  of operations on the object (starting either mode, restarting, returning to the menu,
  resigning, moves, board input, iterations of the loop), also when one of them raises.
  So against the computer the input of the human is accepted on White's turn and the
  engine is asked on Black's.
\<close>

theorem C10_player_color_always_white:
  "player_color (ChessGame L width height) = WHITE
   \<and> player_color (apply_operations L pw ops (ChessGame L width height)) = WHITE
   \<and> (turn L (board (apply_operations L pw ops (ChessGame L width height)))
        \<noteq> player_color (apply_operations L pw ops (ChessGame L width height)))
       = (turn L (board (apply_operations L pw ops (ChessGame L width height))) = BLACK)"
proof -
  have "player_color (ChessGame L width height) = WHITE"
    by (simp add: ChessGame_def Let_def)
  then have "player_color (apply_operations L pw ops (ChessGame L width height)) = WHITE"
    by (rule player_color_apply_operations)
  then show ?thesis
    using \<open>player_color (ChessGame L width height) = WHITE\<close>
    by (auto simp: WHITE_def BLACK_def)
qed

end
